theory Spec2Isabelle
  imports Complex_Main
begin

section \<open>JavaScript strings\<close>

text \<open>
  A JavaScript string is modelled as an Isabelle \<open>string\<close>: a list of code units, here
  restricted to the range 0..255. \<open>isWhiteSpace\<close> is the set that \<open>String.prototype.trim\<close>
  and the string-to-number conversion strip (WhiteSpace and LineTerminator), cut down to
  that range: TAB, LF, VT, FF, CR, SP and NBSP.
\<close>

definition isWhiteSpace :: "char \<Rightarrow> bool" where
  "isWhiteSpace c = ((of_char c :: nat) \<in> {9, 10, 11, 12, 13, 32, 160})"

definition trimStart :: "string \<Rightarrow> string" where
  "trimStart s = dropWhile isWhiteSpace s"

definition trim :: "string \<Rightarrow> string" where
  "trim s = rev (trimStart (rev (trimStart s)))"

text \<open>\<open>s.startsWith(p)\<close>.\<close>

definition startsWith :: "string \<Rightarrow> string \<Rightarrow> bool" where
  "startsWith s p = (take (length p) s = p)"

text \<open>\<open>s.includes(p)\<close>: \<open>p\<close> occurs in \<open>s\<close> at some position.\<close>

fun str_includes :: "string \<Rightarrow> string \<Rightarrow> bool" where
  "str_includes [] p = (p = [])"
| "str_includes (c # cs) p = (startsWith (c # cs) p \<or> str_includes cs p)"

text \<open>
  \<open>s.split(sep)\<close> for a one-character separator: the pieces between the separators, so
  that the empty string gives one empty piece and a trailing separator a last empty piece.
\<close>

fun split :: "char \<Rightarrow> string \<Rightarrow> string list" where
  "split sep [] = [[]]"
| "split sep (c # cs) =
     (if c = sep then [] # split sep cs
      else (case split sep cs of
              [] \<Rightarrow> [[c]]
            | w # ws \<Rightarrow> (c # w) # ws))"

text \<open>Truthiness of a value that is a string, \<open>null\<close> or \<open>undefined\<close> (\<open>None\<close>).\<close>

fun truthy :: "string option \<Rightarrow> bool" where
  "truthy None = False"
| "truthy (Some s) = (s \<noteq> [])"

section \<open>JavaScript numbers and \<open>Number(string)\<close>\<close>

text \<open>
  The values \<open>Number\<close> can return: \<open>NaN\<close>, the two infinities and the finite numbers of
  binary64, each carried as the rational it stands for. \<open>-0\<close> is \<open>Fin 0\<close>: the program only
  compares numbers and tests their truthiness, which do not tell \<open>-0\<close> from \<open>0\<close>.
\<close>

datatype jsnum = NaN | NegInf | Fin rat | PosInf

text \<open>The relational operators \<open><\<close> and \<open>></\<close> on numbers: false as soon as a side is NaN.\<close>

fun js_lt :: "jsnum \<Rightarrow> jsnum \<Rightarrow> bool" where
  "js_lt NaN _ = False"
| "js_lt _ NaN = False"
| "js_lt (Fin a) (Fin b) = (a < b)"
| "js_lt NegInf NegInf = False"
| "js_lt NegInf _ = True"
| "js_lt _ NegInf = False"
| "js_lt PosInf _ = False"
| "js_lt _ PosInf = True"

definition js_gt :: "jsnum \<Rightarrow> jsnum \<Rightarrow> bool" where
  "js_gt a b = js_lt b a"

fun js_neg :: "jsnum \<Rightarrow> jsnum" where
  "js_neg NaN = NaN"
| "js_neg NegInf = PosInf"
| "js_neg PosInf = NegInf"
| "js_neg (Fin a) = Fin (- a)"

text \<open>The value of a digit character in a radix up to 16, if it is one.\<close>

definition digitOf :: "char \<Rightarrow> nat option" where
  "digitOf c =
     (let n = (of_char c :: nat) in
      if 48 \<le> n \<and> n \<le> 57 then Some (n - 48)
      else if 97 \<le> n \<and> n \<le> 102 then Some (n - 87)
      else if 65 \<le> n \<and> n \<le> 70 then Some (n - 55)
      else None)"

definition digitIn :: "nat \<Rightarrow> char \<Rightarrow> nat option" where
  "digitIn radix c =
     (case digitOf c of
        None \<Rightarrow> None
      | Some d \<Rightarrow> if d < radix then Some d else None)"

definition isDecimalDigit :: "char \<Rightarrow> bool" where
  "isDecimalDigit c = (digitIn 10 c \<noteq> None)"

fun digitsValue :: "nat \<Rightarrow> string \<Rightarrow> nat \<Rightarrow> nat option" where
  "digitsValue radix [] acc = Some acc"
| "digitsValue radix (c # cs) acc =
     (case digitIn radix c of
        None \<Rightarrow> None
      | Some d \<Rightarrow> digitsValue radix cs (acc * radix + d))"

text \<open>One or more digits of the radix, and nothing else.\<close>

definition parseDigits :: "nat \<Rightarrow> string \<Rightarrow> nat option" where
  "parseDigits radix s = (if s = [] then None else digitsValue radix s 0)"

text \<open>NonDecimalIntegerLiteral: \<open>0b\<close>, \<open>0o\<close> or \<open>0x\<close> (either case) and digits; no sign.\<close>

definition parseNonDecimal :: "string \<Rightarrow> nat option" where
  "parseNonDecimal s =
     (case s of
        z # p # ds \<Rightarrow>
          if z \<noteq> CHR ''0'' then None
          else if p = CHR ''b'' \<or> p = CHR ''B'' then parseDigits 2 ds
          else if p = CHR ''o'' \<or> p = CHR ''O'' then parseDigits 8 ds
          else if p = CHR ''x'' \<or> p = CHR ''X'' then parseDigits 16 ds
          else None
      | _ \<Rightarrow> None)"

text \<open>SignedInteger of an exponent part.\<close>

definition parseSignedInteger :: "string \<Rightarrow> int option" where
  "parseSignedInteger s =
     (case s of
        [] \<Rightarrow> None
      | c # cs \<Rightarrow>
          if c = CHR ''+'' then map_option int (parseDigits 10 cs)
          else if c = CHR ''-'' then map_option (\<lambda>n. - int n) (parseDigits 10 cs)
          else map_option int (parseDigits 10 s))"

text \<open>What follows the mantissa: nothing (exponent 0) or an exponent part.\<close>

definition parseExponent :: "string \<Rightarrow> int option" where
  "parseExponent s =
     (case s of
        [] \<Rightarrow> Some 0
      | c # cs \<Rightarrow> if c = CHR ''e'' \<or> c = CHR ''E'' then parseSignedInteger cs else None)"

text \<open>
  Rounding to binary64, to the nearest value with ties to the even significand. A finite
  value is \<open>m * 2 ^ q\<close> with \<open>m < 2 ^ 53\<close> and \<open>q\<close> from -1074 on; for a positive \<open>x\<close> the
  exponent \<open>q\<close> is 52 below that of its leading bit, and not below -1074 (the subnormal
  numbers). What rounds to \<open>2 ^ 1024\<close> or more, a value whose leading bit has the exponent
  1024 at least, is infinite. \<open>bitLength n\<close> is the number of
  binary digits of \<open>n\<close>, \<open>pow2 k\<close> is 2 to the \<open>k\<close>, and \<open>ilog2 x\<close> is the exponent of the
  leading bit of a positive \<open>x\<close>.
\<close>

fun bitLength :: "nat \<Rightarrow> nat" where
  "bitLength n = (if n = 0 then 0 else Suc (bitLength (n div 2)))"

declare bitLength.simps [simp del]

definition pow2 :: "int \<Rightarrow> rat" where
  "pow2 k = (if 0 \<le> k then 2 ^ nat k else 1 / 2 ^ nat (- k))"

definition ilog2 :: "rat \<Rightarrow> int" where
  "ilog2 x =
     (let k = int (bitLength (nat (fst (quotient_of x)))) -
              int (bitLength (nat (snd (quotient_of x))))
      in if pow2 k \<le> x then k else k - 1)"

definition roundHalfEven :: "rat \<Rightarrow> int" where
  "roundHalfEven n =
     (let f = \<lfloor>n\<rfloor>; r = n - of_int f
      in if r < 1 / 2 then f
         else if 1 / 2 < r then f + 1
         else if even f then f else f + 1)"

definition round64_pos :: "rat \<Rightarrow> jsnum" where
  "round64_pos x =
     (let q = max (ilog2 x) (- 1022) - 52;
          v = of_int (roundHalfEven (x / pow2 q)) * pow2 q
      in if 0 < v \<and> 1024 \<le> ilog2 v then PosInf else Fin v)"

definition round64 :: "rat \<Rightarrow> jsnum" where
  "round64 x =
     (if x = 0 then Fin 0
      else if 0 < x then round64_pos x
      else js_neg (round64_pos (- x)))"

definition scale10 :: "rat \<Rightarrow> int \<Rightarrow> rat" where
  "scale10 m e = (if 0 \<le> e then m * 10 ^ nat e else m / 10 ^ nat (- e))"

text \<open>
  StrUnsignedDecimalLiteral: \<open>Infinity\<close>, or digits with an optional fraction and an
  optional exponent, with a digit on at least one side of the point.
\<close>

definition parseUnsignedDecimal :: "string \<Rightarrow> jsnum option" where
  "parseUnsignedDecimal s =
     (if s = ''Infinity'' then Some PosInf
      else
        let ip = takeWhile isDecimalDigit s;
            r1 = dropWhile isDecimalDigit s;
            fp = (case r1 of
                    [] \<Rightarrow> []
                  | c # t \<Rightarrow> if c = CHR ''.'' then takeWhile isDecimalDigit t else []);
            r2 = (case r1 of
                    [] \<Rightarrow> []
                  | c # t \<Rightarrow> if c = CHR ''.'' then dropWhile isDecimalDigit t else r1)
        in if ip = [] \<and> fp = [] then None
           else (case (digitsValue 10 ip 0, digitsValue 10 fp 0, parseExponent r2) of
                   (Some i, Some f, Some e) \<Rightarrow>
                     Some (round64 (scale10 (of_nat i + of_nat f / 10 ^ length fp) e))
                 | _ \<Rightarrow> None))"

text \<open>StrDecimalLiteral: an optional sign before the unsigned literal.\<close>

definition parseDecimal :: "string \<Rightarrow> jsnum option" where
  "parseDecimal s =
     (case s of
        [] \<Rightarrow> None
      | c # cs \<Rightarrow>
          if c = CHR ''+'' then parseUnsignedDecimal cs
          else if c = CHR ''-'' then map_option js_neg (parseUnsignedDecimal cs)
          else parseUnsignedDecimal s)"

text \<open>
  \<open>Number(s)\<close> for a string: white space is stripped at both ends, the empty string is
  0, a numeric literal is its value rounded to binary64, and anything else is NaN. (The
  language lets an engine cut a decimal literal after its 20th significant digit before
  rounding; here, as in the engines in use, the exact value is rounded.)
\<close>

definition Number :: "string \<Rightarrow> jsnum" where
  "Number s =
     (let t = trim s in
      if t = [] then Fin 0
      else (case parseNonDecimal t of
              Some n \<Rightarrow> round64 (of_nat n)
            | None \<Rightarrow> (case parseDecimal t of
                         Some v \<Rightarrow> v
                       | None \<Rightarrow> NaN)))"

section \<open>\<open>compareVersions\<close> (components/AuthGuard.js)\<close>

text \<open>
  \<open>parts[i] || 0\<close>: the element when there is one and it is truthy, and 0 otherwise.
  A read past the end is \<open>undefined\<close>; NaN and 0 are falsy.
\<close>

definition partOrZero :: "jsnum list \<Rightarrow> nat \<Rightarrow> jsnum" where
  "partOrZero parts i =
     (if i < length parts then
        (if parts ! i = NaN \<or> parts ! i = Fin 0 then Fin 0 else parts ! i)
      else Fin 0)"

text \<open>The \<open>for\<close> loop of \<open>compareVersions\<close>, from index \<open>i\<close> on.\<close>

function compareLoop :: "jsnum list \<Rightarrow> jsnum list \<Rightarrow> nat \<Rightarrow> nat \<Rightarrow> int" where
  "compareLoop v1Parts v2Parts maxLength i =
     (if i < maxLength then
        (let v1Part = partOrZero v1Parts i;
             v2Part = partOrZero v2Parts i
         in if js_lt v1Part v2Part then - 1
            else if js_gt v1Part v2Part then 1
            else compareLoop v1Parts v2Parts maxLength (Suc i))
      else 0)"
  by pat_completeness auto
termination
  by (relation "measure (\<lambda>(v1Parts, v2Parts, maxLength, i). maxLength - i)") auto

declare compareLoop.simps [simp del]

definition compareParts :: "jsnum list \<Rightarrow> jsnum list \<Rightarrow> int" where
  "compareParts v1Parts v2Parts =
     compareLoop v1Parts v2Parts (max (length v1Parts) (length v2Parts)) 0"

definition compareVersions :: "string \<Rightarrow> string \<Rightarrow> int" where
  "compareVersions version1 version2 =
     compareParts (map Number (split CHR ''.'' version1)) (map Number (split CHR ''.'' version2))"

section \<open>The base URL (services/api.js)\<close>

text \<open>
  \<open>a || b\<close> on values that are strings or \<open>undefined\<close>: the left operand when it is
  truthy, the right one otherwise.
\<close>

definition js_or :: "string option \<Rightarrow> string option \<Rightarrow> string option" where
  "js_or a b = (if truthy a then a else b)"

text \<open>
  \<open>const BASE_URL = process.env.REACT_APP_API_BASE_URL || '__NDP_EP_API_URL__' ||
  'http://localhost:8003'\<close>, as a function of the environment variable (\<open>None\<close> when it
  is not set at build time).
\<close>

definition BASE_URL :: "string option \<Rightarrow> string option" where
  "BASE_URL env =
     js_or (js_or env (Some ''__NDP_EP_API_URL__'')) (Some ''http://localhost:8003'')"

section \<open>The browser and the API client (services/api.js)\<close>

text \<open>A request configuration: the path and the headers.\<close>

record config =
  url :: string
  headers :: "string \<rightharpoonup> string"

text \<open>
  What the handlers read of a rejected request: \<open>error.message\<close>, \<open>error.code\<close>,
  \<open>error.response?.status\<close> (\<open>None\<close> when there is no response) and
  \<open>error.config?.url\<close>.
\<close>

record axios_error =
  message :: string
  code :: "string option"
  response_status :: "int option"
  config_url :: "string option"

text \<open>\<open>new Error(msg)\<close>: a message and nothing else.\<close>

definition js_Error :: "string \<Rightarrow> axios_error" where
  "js_Error msg = \<lparr>message = msg, code = None, response_status = None, config_url = None\<rparr>"

text \<open>The data of a reply of \<open>/user/info\<close>.\<close>

record user_info =
  username :: string
  roles :: "string list"
  groups :: "string list"

text \<open>
  The part of the browser the client acts on: \<open>localStorage\<close>, the messages shown with
  \<open>alert\<close>, the number of calls of \<open>window.location.reload()\<close>, the requests sent by the
  client that validates a token, and the calls of \<open>localStorage.setItem\<close> in the order
  they were made, each with its key, its value and the requests that had been sent when
  it was made. Calls of \<open>console\<close> are left out.
\<close>

record browser =
  localStorage :: "string \<rightharpoonup> string"
  alerts :: "string list"
  reloads :: nat
  sent :: "config list"
  setItems :: "(string \<times> string \<times> config list) list"

definition removeItem :: "string \<Rightarrow> browser \<Rightarrow> browser" where
  "removeItem k w = w\<lparr>localStorage := (localStorage w)(k := None)\<rparr>"

definition setItem :: "string \<Rightarrow> string \<Rightarrow> browser \<Rightarrow> browser" where
  "setItem k v w =
     w\<lparr>localStorage := (localStorage w)(k \<mapsto> v), setItems := setItems w @ [(k, v, sent w)]\<rparr>"

definition alert :: "string \<Rightarrow> browser \<Rightarrow> browser" where
  "alert msg w = w\<lparr>alerts := alerts w @ [msg]\<rparr>"

definition reload :: "browser \<Rightarrow> browser" where
  "reload w = w\<lparr>reloads := Suc (reloads w)\<rparr>"

text \<open>The remote API, as far as token validation sees it: the reply to a request.\<close>

type_synonym server = "config \<Rightarrow> axios_error + user_info"

definition PUBLIC_ENDPOINTS :: "string list" where
  "PUBLIC_ENDPOINTS =
     [''/status/'', ''/status/metrics'', ''/status/kafka-details'', ''/status/jupyter'']"

text \<open>\<open>xs.some(p)\<close>.\<close>

fun array_some :: "('a \<Rightarrow> bool) \<Rightarrow> 'a list \<Rightarrow> bool" where
  "array_some p [] = False"
| "array_some p (x # xs) = (p x \<or> array_some p xs)"

text \<open>\<open>PUBLIC_ENDPOINTS.some(endpoint => url.startsWith(endpoint))\<close>.\<close>

definition isPublicEndpoint :: "string \<Rightarrow> bool" where
  "isPublicEndpoint u = array_some (\<lambda>endpoint. startsWith u endpoint) PUBLIC_ENDPOINTS"

text \<open>
  The request interceptor of the revision with \<open>PUBLIC_ENDPOINTS\<close>. \<open>Inl\<close> is the rejected
  promise, \<open>Inr\<close> the configuration the request goes out with.
\<close>

definition request_interceptor :: "config \<Rightarrow> browser \<Rightarrow> (axios_error + config) \<times> browser" where
  "request_interceptor config w =
     (if \<not> isPublicEndpoint (url config) then
        (case localStorage w ''authToken'' of
           None \<Rightarrow> (Inl (js_Error ''Authentication required''), reload w)
         | Some authToken \<Rightarrow>
             if authToken \<noteq> [] then
               (Inr (config\<lparr>headers := (headers config)(''Authorization'' \<mapsto> ''Bearer '' @ authToken)\<rparr>), w)
             else (Inl (js_Error ''Authentication required''), reload w))
      else (Inr config, w))"

text \<open>The request interceptor of the earlier revision, which has no list of public paths.\<close>

definition request_interceptor_earlier ::
  "config \<Rightarrow> browser \<Rightarrow> (axios_error + config) \<times> browser" where
  "request_interceptor_earlier config w =
     (case localStorage w ''authToken'' of
        None \<Rightarrow> (Inl (js_Error ''Authentication required''), reload w)
      | Some authToken \<Rightarrow>
          if authToken \<noteq> [] then
            (Inr (config\<lparr>headers := (headers config)(''Authorization'' \<mapsto> ''Bearer '' @ authToken)\<rparr>), w)
          else (Inl (js_Error ''Authentication required''), reload w))"

text \<open>
  The error handler of the response interceptor (the success handler returns the response
  as it is). It always rejects with the error it was given, so only the browser is
  returned. A missing \<open>error.config.url\<close> makes every \<open>startsWith\<close> test falsy.
\<close>

definition response_interceptor :: "axios_error \<Rightarrow> browser \<Rightarrow> browser" where
  "response_interceptor error w =
     (let isPublic = (case config_url error of
                        None \<Rightarrow> False
                      | Some u \<Rightarrow> isPublicEndpoint u)
      in if \<not> isPublic \<and> response_status error = Some 401 then
           reload (alert ''Your session has expired. Please log in again.''
                     (removeItem ''authToken'' w))
         else if \<not> isPublic \<and> response_status error = Some 403 then
           alert ''You do not have permission to perform this action.'' w
         else w)"

text \<open>The same handler in the earlier revision.\<close>

definition response_interceptor_earlier :: "axios_error \<Rightarrow> browser \<Rightarrow> browser" where
  "response_interceptor_earlier error w =
     (if response_status error = Some 401 then
        reload (alert ''Your session has expired. Please log in again.''
                  (removeItem ''authToken'' w))
      else if response_status error = Some 403 then
        alert ''You do not have permission to perform this action.'' w
      else w)"

text \<open>
  \<open>authAPI.validateToken\<close>: a client of its own, without interceptors, asks for
  \<open>/user/info\<close> with the token as bearer credential and returns the data of the reply.
\<close>

definition user_info_request :: "string \<Rightarrow> config" where
  "user_info_request token =
     \<lparr>url = ''/user/info'',
      headers = [''Content-Type'' \<mapsto> ''application/json'',
                 ''Authorization'' \<mapsto> ''Bearer '' @ token]\<rparr>"

definition validateToken ::
  "server \<Rightarrow> string \<Rightarrow> browser \<Rightarrow> (axios_error + user_info) \<times> browser" where
  "validateToken srv token w =
     (let request = user_info_request token
      in (srv request, w\<lparr>sent := sent w @ [request]\<rparr>))"

text \<open>The message of the error that \<open>setAndValidateToken\<close> throws in its \<open>catch\<close>.\<close>

definition validation_failure :: "axios_error \<Rightarrow> string" where
  "validation_failure error =
     (if response_status error = Some 401 then ''Invalid token: Authentication failed''
      else if response_status error = Some 403 then ''Invalid token: Insufficient permissions''
      else if code error = Some ''ECONNREFUSED'' \<or> str_includes (message error) ''Network Error''
        then ''Cannot connect to API server''
      else ''Token validation failed: '' @
             (if message error \<noteq> [] then message error else ''Unknown error''))"

text \<open>
  \<open>authAPI.setAndValidateToken\<close>; \<open>Inl\<close> is the message of the error thrown. The
  argument is a string, so the \<open>typeof\<close> test never fires.
\<close>

definition setAndValidateToken ::
  "server \<Rightarrow> string \<Rightarrow> browser \<Rightarrow> (string + user_info) \<times> browser" where
  "setAndValidateToken srv token w =
     (if token = [] \<or> trim token = [] then
        (Inl ''Invalid token: Token cannot be empty'', w)
      else
        (case validateToken srv (trim token) w of
           (Inr userInfo, w1) \<Rightarrow> (Inr userInfo, setItem ''authToken'' (trim token) w1)
         | (Inl error, w1) \<Rightarrow> (Inl (validation_failure error), removeItem ''authToken'' w1)))"

text \<open>\<open>authAPI.logout\<close> and \<open>clearAuth\<close>.\<close>

definition logout :: "browser \<Rightarrow> browser" where
  "logout w = removeItem ''authToken'' w"

section \<open>The session gate (components/AuthGuard.js)\<close>

text \<open>
  The state of the component, one field for each \<open>useState\<close>. The revision of
  \<open>src/components/AuthGuard.js\<close> that accepts every non-empty token has the first five
  fields; the revision that checks the API version and validates the token with the
  server has two more. In \<open>api_status\<close> the fields \<open>checking\<close>, \<open>connected\<close> and \<open>error\<close> of
  the source are \<open>checkingApi\<close>, \<open>connectedApi\<close> and \<open>status_error\<close>. The \<open>onAuthenticated\<close> callback is left out
  (\<open>App\<close> passes none).
\<close>

record api_status =
  checkingApi :: bool
  connectedApi :: bool
  version :: "string option"
  compatible :: bool
  status_error :: "string option"

record basic_gate =
  isAuthenticated :: bool
  loading :: bool
  error :: "string option"
  showToken :: bool
  token :: string

record gate = basic_gate +
  validatingToken :: bool
  apiStatus :: api_status

definition initial_gate :: gate where
  "initial_gate =
     \<lparr>isAuthenticated = False, loading = True, error = None, showToken = False, token = [],
      validatingToken = False,
      apiStatus = \<lparr>checkingApi = True, connectedApi = False, version = None,
                   compatible = False, status_error = None\<rparr>\<rparr>"

text \<open>What the component returns: the spinner, the credential form or the protected pages.\<close>

datatype view = Spinner | CredentialForm | Children

definition render :: "gate \<Rightarrow> view" where
  "render g =
     (if loading g \<or> checkingApi (apiStatus g) then Spinner
      else if \<not> isAuthenticated g then CredentialForm
      else Children)"

definition MINIMUM_API_VERSION :: string where
  "MINIMUM_API_VERSION = ''0.1.0''"

definition API_VERSION_CHECK_TIMEOUT :: nat where
  "API_VERSION_CHECK_TIMEOUT = 5000"

text \<open>
  The data of a reply of \<open>/status/\<close>, as far as it is read: the properties \<open>version\<close> and
  \<open>api_version\<close>, each absent (\<open>None\<close>) or a value. A value is a string, or something
  else (a number, a boolean, \<open>null\<close>, an object) of which only the truthiness matters.
  \<open>value_or\<close> is \<open>a || b\<close> on such values. A settled promise is \<open>Resolved\<close> or \<open>Rejected\<close>.
  The status probe settles at some time (in milliseconds after the effect started) or
  never does.
\<close>

datatype js_value = JString string | JOther bool

fun value_truthy :: "js_value option \<Rightarrow> bool" where
  "value_truthy None = False"
| "value_truthy (Some (JString s)) = (s \<noteq> [])"
| "value_truthy (Some (JOther b)) = b"

definition value_or :: "js_value option \<Rightarrow> js_value option \<Rightarrow> js_value option" where
  "value_or a b = (if value_truthy a then a else b)"

record status_data =
  data_version :: "js_value option"
  data_api_version :: "js_value option"

datatype 'a settled = Resolved 'a | Rejected axios_error

datatype probe = Settles nat "status_data option settled" | Never

text \<open>
  \<open>Promise.race([statusAPI.getStatus(), timeoutPromise])\<close>: the probe when it settles
  before the timer fires, and otherwise the rejection of the timer. The result comes with
  the time at which the race settles.
\<close>

definition race :: "probe \<Rightarrow> nat \<times> status_data option settled" where
  "race p =
     (case p of
        Never \<Rightarrow> (API_VERSION_CHECK_TIMEOUT, Rejected (js_Error ''API connection timeout''))
      | Settles t r \<Rightarrow>
          if t < API_VERSION_CHECK_TIMEOUT then (t, r)
          else (API_VERSION_CHECK_TIMEOUT, Rejected (js_Error ''API connection timeout'')))"

text \<open>The message chosen in the \<open>catch\<close> of \<open>checkApiVersion\<close>.\<close>

definition probe_failure :: "axios_error \<Rightarrow> string" where
  "probe_failure err =
     (if message err = ''API connection timeout'' then
        ''API connection timeout - server may be down''
      else if response_status err = Some 401 then ''API authentication required''
      else if (case response_status err of None \<Rightarrow> False | Some st \<Rightarrow> 500 \<le> st) then
        ''API server error''
      else if code err = Some ''NETWORK_ERROR'' \<or> str_includes (message err) ''Network Error''
        then ''Network connection failed''
      else ''Unable to connect to API'')"

text \<open>
  \<open>checkApiVersion\<close>: the time at which it calls \<open>setApiStatus\<close> for the last time, and
  the state after that call. \<open>apiVersion\<close> is the first truthy one of \<open>version\<close>,
  \<open>api_version\<close> and \<open>'unknown'\<close>. When it is not a string, \<open>compareVersions\<close> throws a
  TypeError (\<open>version1.split\<close> is not a function) inside the \<open>try\<close>, and the \<open>catch\<close>
  handles that like a failed probe.
\<close>

definition checkApiVersion :: "probe \<Rightarrow> gate \<Rightarrow> nat \<times> gate" where
  "checkApiVersion p g =
     (let g1 = g\<lparr>apiStatus := (apiStatus g)\<lparr>checkingApi := True, status_error := None\<rparr>\<rparr>
      in case race p of
           (t, Resolved data) \<Rightarrow>
             (case value_or
                     (value_or (case data of None \<Rightarrow> None | Some d \<Rightarrow> data_version d)
                               (case data of None \<Rightarrow> None | Some d \<Rightarrow> data_api_version d))
                     (Some (JString ''unknown'')) of
                Some (JString apiVersion) \<Rightarrow>
                  (let isCompatible =
                         (if apiVersion \<noteq> ''unknown''
                          then 0 \<le> compareVersions apiVersion MINIMUM_API_VERSION
                          else False)
                   in (t, g1\<lparr>apiStatus := \<lparr>checkingApi = False, connectedApi = True,
                                            version = Some apiVersion,
                                            compatible = isCompatible,
                                            status_error = None\<rparr>\<rparr>))
              | _ \<Rightarrow>
                  (t, g1\<lparr>apiStatus :=
                           \<lparr>checkingApi = False, connectedApi = False, version = None,
                            compatible = False,
                            status_error =
                              Some (probe_failure
                                      (js_Error ''version1.split is not a function''))\<rparr>\<rparr>))
         | (t, Rejected err) \<Rightarrow>
             (t, g1\<lparr>apiStatus := \<lparr>checkingApi = False, connectedApi = False, version = None,
                                   compatible = False,
                                   status_error = Some (probe_failure err)\<rparr>\<rparr>))"

text \<open>\<open>checkExistingAuth\<close>, the body of the second effect.\<close>

definition checkExistingAuth :: "server \<Rightarrow> gate \<Rightarrow> browser \<Rightarrow> gate \<times> browser" where
  "checkExistingAuth srv g w =
     (case localStorage w ''authToken'' of
        None \<Rightarrow> (g\<lparr>loading := False\<rparr>, w)
      | Some existingToken \<Rightarrow>
          if existingToken \<noteq> [] \<and> trim existingToken \<noteq> [] then
            (case validateToken srv existingToken w of
               (Inr userInfo, w1) \<Rightarrow> (g\<lparr>isAuthenticated := True, loading := False\<rparr>, w1)
             | (Inl validationError, w1) \<Rightarrow>
                 (g\<lparr>error := Some ''Your session has expired. Please enter a valid token.'',
                    loading := False\<rparr>,
                  removeItem ''authToken'' w1))
          else (g\<lparr>loading := False\<rparr>, w))"

text \<open>
  The second effect: it returns at once while the API check is running, and runs
  \<open>checkExistingAuth\<close> otherwise.
\<close>

definition authEffect :: "server \<Rightarrow> gate \<Rightarrow> browser \<Rightarrow> gate \<times> browser" where
  "authEffect srv g w = (if checkingApi (apiStatus g) then (g, w) else checkExistingAuth srv g w)"

text \<open>
  The component from mounting on: both effects run on the initial state, and the second
  runs again when \<open>apiStatus.checking\<close> has changed, which is when \<open>checkApiVersion\<close> has
  set the final status.
\<close>

definition startup :: "server \<Rightarrow> probe \<Rightarrow> browser \<Rightarrow> gate \<times> browser" where
  "startup srv p w =
     (case authEffect srv initial_gate w of
        (g0, w0) \<Rightarrow> authEffect srv (snd (checkApiVersion p g0)) w0)"

text \<open>The message set in the \<open>catch\<close> of \<open>handleTokenSubmit\<close>.\<close>

definition submit_failure :: "string \<Rightarrow> string" where
  "submit_failure m =
     (let errorMessage = (if m \<noteq> [] then m else ''Token validation failed'')
      in if str_includes errorMessage ''Invalid token'' then
           ''Invalid token. Please check your token and try again.''
         else if str_includes errorMessage ''Cannot connect to API'' then
           ''Cannot connect to API server. Please check your connection.''
         else if str_includes errorMessage ''Insufficient permissions'' then
           ''Token does not have sufficient permissions.''
         else ''Authentication failed: '' @ errorMessage)"

text \<open>
  \<open>handleTokenSubmit\<close> of the revision that validates with the server; the state is the
  one after the \<open>finally\<close> block.
\<close>

definition handleTokenSubmit :: "server \<Rightarrow> gate \<Rightarrow> browser \<Rightarrow> gate \<times> browser" where
  "handleTokenSubmit srv g w =
     (if trim (token g) = [] then (g\<lparr>error := Some ''Please enter a valid token''\<rparr>, w)
      else
        (case setAndValidateToken srv (trim (token g)) w of
           (Inr userInfo, w1) \<Rightarrow>
             (g\<lparr>error := None, isAuthenticated := True, token := [],
                validatingToken := False\<rparr>, w1)
         | (Inl m, w1) \<Rightarrow>
             (g\<lparr>error := Some (submit_failure m), validatingToken := False\<rparr>, w1)))"

text \<open>\<open>isValidTokenFormat\<close> and \<open>handleTokenSubmit\<close> of \<open>src/components/AuthGuard.js\<close>.\<close>

definition isValidTokenFormat :: "string \<Rightarrow> bool" where
  "isValidTokenFormat t = (t \<noteq> [] \<and> 0 < length (trim t))"

definition handleTokenSubmit_basic :: "basic_gate \<Rightarrow> browser \<Rightarrow> basic_gate \<times> browser" where
  "handleTokenSubmit_basic g w =
     (if trim (token g) = [] then (g\<lparr>error := Some ''Please enter a valid token''\<rparr>, w)
      else if \<not> isValidTokenFormat (trim (token g)) then
        (g\<lparr>error := Some ''Token cannot be empty. Please enter a valid token.''\<rparr>, w)
      else
        (g\<lparr>error := None, isAuthenticated := True\<rparr>,
         setItem ''authToken'' (trim (token g)) w))"

section \<open>Example surroundings\<close>

text \<open>
  A browser with a given storage in which nothing was shown, reloaded, sent or stored
  yet; a server that answers every request with 401, one that answers every request with
  403, and one that accepts every token and reports a given user.
\<close>

definition fresh_browser :: "(string \<rightharpoonup> string) \<Rightarrow> browser" where
  "fresh_browser st = \<lparr>localStorage = st, alerts = [], reloads = 0, sent = [], setItems = []\<rparr>"

definition rejecting_server :: server where
  "rejecting_server request =
     Inl \<lparr>message = ''Request failed with status code 401'', code = Some ''ERR_BAD_REQUEST'',
          response_status = Some 401, config_url = Some (url request)\<rparr>"

definition forbidding_server :: server where
  "forbidding_server request =
     Inl \<lparr>message = ''Request failed with status code 403'', code = Some ''ERR_BAD_REQUEST'',
          response_status = Some 403, config_url = Some (url request)\<rparr>"

definition accepting_server :: "user_info \<Rightarrow> server" where
  "accepting_server info request = Inr info"

section \<open>Component-wise comparison, as the specification words it\<close>

text \<open>
  The specification's comparison: the components are compared in order as numbers, a
  component missing on one side counts as zero, and the first difference decides.
\<close>

definition decide :: "jsnum \<Rightarrow> jsnum \<Rightarrow> int \<Rightarrow> int" where
  "decide a b rest = (if js_lt a b then - 1 else if js_lt b a then 1 else rest)"

fun componentwise :: "jsnum list \<Rightarrow> jsnum list \<Rightarrow> int" where
  "componentwise [] [] = 0"
| "componentwise (x # xs) [] = decide x (Fin 0) (componentwise xs [])"
| "componentwise [] (y # ys) = decide (Fin 0) y (componentwise [] ys)"
| "componentwise (x # xs) (y # ys) = decide x y (componentwise xs ys)"

text \<open>What \<open>x || 0\<close> makes of a component that is not a number.\<close>

definition zeroIfNaN :: "jsnum \<Rightarrow> jsnum" where
  "zeroIfNaN x = (if x = NaN then Fin 0 else x)"

section \<open>Properties of \<open>compareVersions\<close>\<close>

text \<open>
  The loop computes the component-wise comparison of the two arrays once every NaN has
  become 0: from index \<open>i\<close> on it compares what is left of both arrays.
\<close>

lemma partOrZero_nth:
  "partOrZero xs i = (if i < length xs then zeroIfNaN (xs ! i) else Fin 0)"
  by (simp add: partOrZero_def zeroIfNaN_def)

lemma drop_map_step:
  "i < length xs \<Longrightarrow> drop i (map f xs) = f (xs ! i) # drop (Suc i) (map f xs)"
  using Cons_nth_drop_Suc [of i "map f xs"] by simp

lemma compareLoop_componentwise:
  "n = max (length xs) (length ys) \<Longrightarrow>
   compareLoop xs ys n i = componentwise (drop i (map zeroIfNaN xs)) (drop i (map zeroIfNaN ys))"
proof (induction xs ys n i rule: compareLoop.induct)
  case (1 xs ys n i)
  show ?case
  proof (cases "i < n")
    case False
    with 1(2) show ?thesis by (simp add: compareLoop.simps)
  next
    case True
    note step = compareLoop.simps [of xs ys n i]
    consider (both) "i < length xs" "i < length ys"
      | (left) "i < length xs" "length ys \<le> i"
      | (right) "length xs \<le> i" "i < length ys"
      using True 1(2) by (cases "i < length xs"; cases "i < length ys") auto
    then show ?thesis
    proof cases
      case both
      then show ?thesis
        using True 1 
        by (subst step) (auto simp: partOrZero_nth drop_map_step decide_def js_gt_def Let_def)
    next
      case left
      then show ?thesis
        using True 1
        by (subst step) (auto simp: partOrZero_nth drop_map_step decide_def js_gt_def Let_def)
    next
      case right
      then show ?thesis
        using True 1
        by (subst step) (auto simp: partOrZero_nth drop_map_step decide_def js_gt_def Let_def)
    qed
  qed
qed

lemma js_lt_irrefl: "\<not> js_lt a a"
  by (cases a) auto

lemma componentwise_refl: "componentwise xs xs = 0"
  by (induction xs) (auto simp: decide_def js_lt_irrefl)

lemma componentwise_range: "componentwise xs ys \<in> {- 1, 0, 1}"
  by (induction xs ys rule: componentwise.induct) (auto simp: decide_def)

lemma compareParts_componentwise:
  "compareParts xs ys = componentwise (map zeroIfNaN xs) (map zeroIfNaN ys)"
  by (simp add: compareParts_def compareLoop_componentwise)

lemma zeroIfNaN_idem: "zeroIfNaN (zeroIfNaN x) = zeroIfNaN x"
  by (simp add: zeroIfNaN_def)

lemma componentwise_zeros:
  "list_all (\<lambda>x. x = Fin 0) xs \<Longrightarrow> list_all (\<lambda>y. y = Fin 0) ys \<Longrightarrow> componentwise xs ys = 0"
  by (induction xs ys rule: componentwise.induct) (auto simp: decide_def)

text \<open>
  C4: \<open>compareVersions\<close> compares component by component as numbers, a missing component
  counting as zero: \<open>compareVersions("2", "1.9")\<close> is 1, every pair of strings gets a
  result (one of -1, 0 and 1), and \<open>compareVersions(v, v)\<close> is 0 for every string \<open>v\<close>.
\<close>

theorem compareVersions_componentwise:
  "compareVersions ''2'' ''1.9'' = 1
   \<and> compareVersions v1 v2 =
       componentwise (map zeroIfNaN (map Number (split CHR ''.'' v1)))
                     (map zeroIfNaN (map Number (split CHR ''.'' v2)))
   \<and> compareVersions v1 v2 \<in> {- 1, 0, 1}
   \<and> compareVersions v v = 0"
proof -
  have ex: "compareVersions ''2'' ''1.9'' = 1"
    by code_simp
  have ref: "compareVersions a b =
       componentwise (map zeroIfNaN (map Number (split CHR ''.'' a)))
                     (map zeroIfNaN (map Number (split CHR ''.'' b)))" for a b
    unfolding compareVersions_def by (rule compareParts_componentwise)
  have rng: "compareVersions v1 v2 \<in> {- 1, 0, 1}"
    unfolding ref by (rule componentwise_range)
  have refl: "compareVersions v v = 0"
    unfolding ref by (rule componentwise_refl)
  from ex ref rng refl show ?thesis by blast
qed

text \<open>
  C10, as the claim words it, fails: a component that is not a number does not count as
  equal to whatever stands on the other side. \<open>"abc"\<close> is NaN, \<open>NaN || 0\<close> is 0, and 0 is
  less than 1, so the single position of \<open>compareVersions("abc", "1")\<close> decides.
\<close>

theorem compareVersions_nan_decides:
  "Number ''abc'' = NaN \<and> compareVersions ''abc'' ''1'' = - 1"
  by code_simp

text \<open>
  C10, amended: a component that is not a number is replaced by 0 before it is compared
  (the result is the same as on the arrays with 0 for every NaN); so two version strings
  all of whose components are not numbers compare as equal, and
  \<open>compareVersions("abc.2", "abc.1")\<close> is 1.
\<close>

theorem compareVersions_nan_as_zero:
  "compareParts xs ys = compareParts (map zeroIfNaN xs) (map zeroIfNaN ys)
   \<and> (list_all (\<lambda>c. Number c = NaN) (split CHR ''.'' v1) \<and>
      list_all (\<lambda>c. Number c = NaN) (split CHR ''.'' v2) \<longrightarrow> compareVersions v1 v2 = 0)
   \<and> compareVersions ''abc.2'' ''abc.1'' = 1"
proof -
  have a: "compareParts xs ys = compareParts (map zeroIfNaN xs) (map zeroIfNaN ys)"
    by (simp add: compareParts_componentwise zeroIfNaN_idem comp_def)
  have z: "list_all (\<lambda>c. Number c = NaN) cs \<Longrightarrow>
           list_all (\<lambda>x. x = Fin 0) (map zeroIfNaN (map Number cs))" for cs
    by (induction cs) (auto simp: zeroIfNaN_def)
  have b: "list_all (\<lambda>c. Number c = NaN) (split CHR ''.'' v1) \<and>
      list_all (\<lambda>c. Number c = NaN) (split CHR ''.'' v2) \<longrightarrow> compareVersions v1 v2 = 0"
  proof
    assume h: "list_all (\<lambda>c. Number c = NaN) (split CHR ''.'' v1) \<and>
      list_all (\<lambda>c. Number c = NaN) (split CHR ''.'' v2)"
    then have h1: "list_all (\<lambda>c. Number c = NaN) (split CHR ''.'' v1)"
      and h2: "list_all (\<lambda>c. Number c = NaN) (split CHR ''.'' v2)"
      by blast+
    show "compareVersions v1 v2 = 0"
      unfolding compareVersions_def compareParts_componentwise
      by (rule componentwise_zeros [OF z [OF h1] z [OF h2]])
  qed
  have c: "compareVersions ''abc.2'' ''abc.1'' = 1"
    by code_simp
  from a b c show ?thesis by blast
qed

text \<open>An instance: \<open>"abc.x"\<close> against \<open>"rc"\<close>.\<close>

theorem compareVersions_nan_as_zero_witness:
  "list_all (\<lambda>c. Number c = NaN) (split CHR ''.'' ''abc.x'') \<and>
   list_all (\<lambda>c. Number c = NaN) (split CHR ''.'' ''rc'') \<and>
   compareVersions ''abc.x'' ''rc'' = 0"
proof -
  have h: "list_all (\<lambda>c. Number c = NaN) (split CHR ''.'' ''abc.x'') \<and>
           list_all (\<lambda>c. Number c = NaN) (split CHR ''.'' ''rc'')"
    by code_simp
  with compareVersions_nan_as_zero [of "[]" "[]" "''abc.x''" "''rc''"] show ?thesis
    by blast
qed

section \<open>Properties of \<open>trim\<close>\<close>

lemma trimStart_fixed: "s = [] \<or> \<not> isWhiteSpace (hd s) \<Longrightarrow> trimStart s = s"
  by (cases s) (auto simp: trimStart_def)

lemma trim_head: "trim s = [] \<or> \<not> isWhiteSpace (hd (trim s))"
proof -
  define a where "a = trimStart s"
  define b where "b = rev (trimStart (rev a))"
  have a: "a = [] \<or> \<not> isWhiteSpace (hd a)"
    unfolding a_def trimStart_def using hd_dropWhile [of isWhiteSpace s] by blast
  have "rev (takeWhile isWhiteSpace (rev a) @ dropWhile isWhiteSpace (rev a)) = rev (rev a)"
    by (simp only: takeWhile_dropWhile_id)
  then have "rev (dropWhile isWhiteSpace (rev a)) @ rev (takeWhile isWhiteSpace (rev a)) = a"
    by (simp only: rev_append rev_rev_ident)
  then have split: "a = b @ rev (takeWhile isWhiteSpace (rev a))"
    by (simp only: b_def trimStart_def)
  have "b = [] \<or> \<not> isWhiteSpace (hd b)"
  proof (cases b)
    case Nil
    then show ?thesis by simp
  next
    case (Cons x xs)
    with split have "hd a = x" "a \<noteq> []" by (metis append_Cons list.sel(1), auto)
    with a Cons show ?thesis by simp
  qed
  then show ?thesis by (simp add: trim_def a_def b_def)
qed

lemma trim_idem: "trim (trim s) = trim s"
proof -
  have 1: "trimStart (trim s) = trim s"
    using trim_head [of s] by (rule trimStart_fixed)
  have 2: "trimStart (trimStart x) = trimStart x" for x
    by (simp add: trimStart_def)
  show ?thesis
    unfolding trim_def [of "trim s"] 1
    by (simp add: trim_def 2)
qed

lemma trim_Nil: "trim [] = []"
  by (simp add: trim_def trimStart_def)

section \<open>Properties of the base URL\<close>

text \<open>
  C8: with \<open>REACT_APP_API_BASE_URL\<close> absent the base URL should be the default
  \<open>http://localhost:8003\<close>, which the expression names as its last operand. The code does
  not get there: the second operand, the placeholder \<open>__NDP_EP_API_URL__\<close>, is a
  non-empty string, so \<open>BASE_URL\<close> is the environment variable when that is a non-empty
  string and the placeholder in every other case.
\<close>

theorem BASE_URL_absent_is_placeholder:
  "BASE_URL None = Some ''__NDP_EP_API_URL__''
   \<and> BASE_URL None \<noteq> Some ''http://localhost:8003''
   \<and> BASE_URL env = (if truthy env then env else Some ''__NDP_EP_API_URL__'')"
  by (simp add: BASE_URL_def js_or_def)

section \<open>Properties of the interceptors\<close>

lemma startsWith_self: "startsWith s s"
  by (simp add: startsWith_def)

lemma array_some_member: "x \<in> set xs \<Longrightarrow> p x \<Longrightarrow> array_some p xs"
  by (induction xs) auto

lemma listed_is_public: "u \<in> set PUBLIC_ENDPOINTS \<Longrightarrow> isPublicEndpoint u"
  unfolding isPublicEndpoint_def by (rule array_some_member [where x = u]) (simp_all add: startsWith_self)

text \<open>
  C2, as the claim words it, fails on the earlier revision of the client, which has no
  list of public paths: with a token stored, the request for the status path \<open>/status/\<close>
  (a path of the list of the later revision) goes out with the bearer header.
\<close>

theorem request_interceptor_earlier_status_path:
  "''/status/'' \<in> set PUBLIC_ENDPOINTS \<and>
   localStorage (fresh_browser [''authToken'' \<mapsto> ''tok'']) ''authToken'' = Some ''tok'' \<and>
   fst (request_interceptor_earlier \<lparr>url = ''/status/'', headers = Map.empty\<rparr>
          (fresh_browser [''authToken'' \<mapsto> ''tok'']))
     = Inr \<lparr>url = ''/status/'', headers = [''Authorization'' \<mapsto> ''Bearer tok'']\<rparr>"
  by (simp add: PUBLIC_ENDPOINTS_def request_interceptor_earlier_def fresh_browser_def)

text \<open>
  C2, amended. In the revision with \<open>PUBLIC_ENDPOINTS\<close>: a request whose path starts with
  an entry of the list (so every path of the list) is passed on as it is, no
  \<open>Authorization\<close> header attached; any other request, when a non-empty token is stored,
  goes out with \<open>Authorization: Bearer <token>\<close>. In the earlier revision every request
  does, when a non-empty token is stored.
\<close>

theorem request_interceptor_bearer:
  "(isPublicEndpoint (url c) \<longrightarrow> request_interceptor c w = (Inr c, w))
   \<and> (u \<in> set PUBLIC_ENDPOINTS \<longrightarrow> isPublicEndpoint u)
   \<and> (\<not> isPublicEndpoint (url c) \<and> localStorage w ''authToken'' = Some t \<and> t \<noteq> [] \<longrightarrow>
        request_interceptor c w =
          (Inr (c\<lparr>headers := (headers c)(''Authorization'' \<mapsto> ''Bearer '' @ t)\<rparr>), w))
   \<and> (localStorage w ''authToken'' = Some t \<and> t \<noteq> [] \<longrightarrow>
        request_interceptor_earlier c w =
          (Inr (c\<lparr>headers := (headers c)(''Authorization'' \<mapsto> ''Bearer '' @ t)\<rparr>), w))"
  by (simp add: request_interceptor_def request_interceptor_earlier_def listed_is_public)

text \<open>Instances: \<open>/status/metrics\<close> and \<open>/organization\<close> with the token \<open>tok\<close> stored.\<close>

theorem request_interceptor_bearer_witness:
  "isPublicEndpoint ''/status/metrics'' \<and>
   request_interceptor \<lparr>url = ''/status/metrics'', headers = Map.empty\<rparr>
       (fresh_browser [''authToken'' \<mapsto> ''tok''])
     = (Inr \<lparr>url = ''/status/metrics'', headers = Map.empty\<rparr>,
        fresh_browser [''authToken'' \<mapsto> ''tok'']) \<and>
   ''/status/metrics'' \<in> set PUBLIC_ENDPOINTS \<and>
   \<not> isPublicEndpoint ''/organization'' \<and>
   localStorage (fresh_browser [''authToken'' \<mapsto> ''tok'']) ''authToken'' = Some ''tok'' \<and>
   request_interceptor \<lparr>url = ''/organization'', headers = Map.empty\<rparr>
       (fresh_browser [''authToken'' \<mapsto> ''tok''])
     = (Inr \<lparr>url = ''/organization'', headers = [''Authorization'' \<mapsto> ''Bearer tok'']\<rparr>,
        fresh_browser [''authToken'' \<mapsto> ''tok'']) \<and>
   request_interceptor_earlier \<lparr>url = ''/organization'', headers = Map.empty\<rparr>
       (fresh_browser [''authToken'' \<mapsto> ''tok''])
     = (Inr \<lparr>url = ''/organization'', headers = [''Authorization'' \<mapsto> ''Bearer tok'']\<rparr>,
        fresh_browser [''authToken'' \<mapsto> ''tok''])"
proof -
  have pub: "isPublicEndpoint ''/status/metrics''" "''/status/metrics'' \<in> set PUBLIC_ENDPOINTS"
    by (simp_all add: isPublicEndpoint_def PUBLIC_ENDPOINTS_def startsWith_def)
  have priv: "\<not> isPublicEndpoint ''/organization''"
    by (simp add: isPublicEndpoint_def PUBLIC_ENDPOINTS_def startsWith_def)
  have tok: "localStorage (fresh_browser [''authToken'' \<mapsto> ''tok'']) ''authToken'' = Some ''tok''"
    by (simp add: fresh_browser_def)
  from pub priv tok
    request_interceptor_bearer [of "\<lparr>url = ''/status/metrics'', headers = Map.empty\<rparr>"
      "fresh_browser [''authToken'' \<mapsto> ''tok'']" "''/status/metrics''" "''tok''"]
    request_interceptor_bearer [of "\<lparr>url = ''/organization'', headers = Map.empty\<rparr>"
      "fresh_browser [''authToken'' \<mapsto> ''tok'']" "''/status/metrics''" "''tok''"]
  show ?thesis by simp
qed

section \<open>Properties of token validation\<close>

text \<open>
  C9: when \<open>setAndValidateToken\<close> is given a token that is not blank and the server
  rejects it, for whatever reason, the call fails and \<open>authToken\<close> is absent from
  \<open>localStorage\<close> afterwards, whatever was stored before.
\<close>

theorem setAndValidateToken_failure_removes_token:
  "trim tok \<noteq> [] \<and> srv (user_info_request (trim tok)) = Inl err \<longrightarrow>
     setAndValidateToken srv tok w =
       (Inl (validation_failure err),
        w\<lparr>sent := sent w @ [user_info_request (trim tok)],
          localStorage := (localStorage w)(''authToken'' := None)\<rparr>)
     \<and> localStorage (snd (setAndValidateToken srv tok w)) ''authToken'' = None"
  by (auto simp: setAndValidateToken_def validateToken_def removeItem_def Let_def trim_Nil)

text \<open>
  An instance: the token \<open>good\<close> is stored, \<open>bad\<close> is submitted and the server answers
  401; afterwards no token is stored.
\<close>

theorem setAndValidateToken_failure_removes_token_witness:
  "trim ''bad'' \<noteq> [] \<and>
   rejecting_server (user_info_request (trim ''bad'')) =
     Inl \<lparr>message = ''Request failed with status code 401'', code = Some ''ERR_BAD_REQUEST'',
          response_status = Some 401, config_url = Some ''/user/info''\<rparr> \<and>
   localStorage (fresh_browser [''authToken'' \<mapsto> ''good'']) ''authToken'' = Some ''good'' \<and>
   fst (setAndValidateToken rejecting_server ''bad'' (fresh_browser [''authToken'' \<mapsto> ''good'']))
     = Inl ''Invalid token: Authentication failed'' \<and>
   localStorage (snd (setAndValidateToken rejecting_server ''bad''
                        (fresh_browser [''authToken'' \<mapsto> ''good'']))) ''authToken'' = None"
proof -
  have t: "trim ''bad'' = ''bad''"
    by code_simp
  have r: "rejecting_server (user_info_request ''bad'') =
     Inl \<lparr>message = ''Request failed with status code 401'', code = Some ''ERR_BAD_REQUEST'',
          response_status = Some 401, config_url = Some ''/user/info''\<rparr>"
    by (simp add: rejecting_server_def user_info_request_def)
  have s: "localStorage (fresh_browser [''authToken'' \<mapsto> ''good'']) ''authToken'' = Some ''good''"
    by (simp add: fresh_browser_def)
  have v: "validation_failure
      \<lparr>message = ''Request failed with status code 401'', code = Some ''ERR_BAD_REQUEST'',
          response_status = Some 401, config_url = Some ''/user/info''\<rparr>
      = ''Invalid token: Authentication failed''"
    by (simp add: validation_failure_def)
  from t r s v
    setAndValidateToken_failure_removes_token [of "''bad''" rejecting_server
      "\<lparr>message = ''Request failed with status code 401'', code = Some ''ERR_BAD_REQUEST'',
          response_status = Some 401, config_url = Some ''/user/info''\<rparr>"
      "fresh_browser [''authToken'' \<mapsto> ''good'']"]
  show ?thesis by simp
qed

text \<open>
  C1, as the claim words it, fails on \<open>handleTokenSubmit\<close> of
  \<open>src/components/AuthGuard.js\<close>, which never asks the server: the token \<open>bad\<close>, which
  the server rejects, is stored, and no request was sent, neither before the call of
  \<open>setItem\<close> nor after it.
\<close>

theorem handleTokenSubmit_basic_stores_unvalidated:
  "fst (validateToken rejecting_server ''bad'' (fresh_browser Map.empty)) =
     Inl \<lparr>message = ''Request failed with status code 401'', code = Some ''ERR_BAD_REQUEST'',
          response_status = Some 401, config_url = Some ''/user/info''\<rparr> \<and>
   snd (handleTokenSubmit_basic
          \<lparr>isAuthenticated = False, loading = False, error = None, showToken = False,
           token = ''bad''\<rparr>
          (fresh_browser Map.empty))
     = \<lparr>localStorage = [''authToken'' \<mapsto> ''bad''], alerts = [], reloads = 0, sent = [],
        setItems = [(''authToken'', ''bad'', [])]\<rparr>"
proof -
  have t: "trim ''bad'' = ''bad''"
    by code_simp
  show ?thesis
    by (simp add: validateToken_def rejecting_server_def user_info_request_def
          handleTokenSubmit_basic_def isValidTokenFormat_def t setItem_def fresh_browser_def)
qed

text \<open>
  C1, amended. The form handler that calls \<open>setAndValidateToken\<close> sends the trimmed token
  to \<open>/user/info\<close> first. Only when the server accepted it does it call \<open>setItem\<close>, once,
  with \<open>authToken\<close> and that token, the request already sent. When the server rejected
  the token there is no call of \<open>setItem\<close> at all, in the form handler and in
  \<open>setAndValidateToken\<close>, and the key is removed; a blank token changes nothing. The form
  handler of \<open>src/components/AuthGuard.js\<close> calls \<open>setItem\<close> for every token that is not
  blank, trimmed, without a request.
\<close>

theorem handleTokenSubmit_stores_after_validation:
  "snd (handleTokenSubmit srv g w) =
     (if trim (token g) = [] then w
      else (case srv (user_info_request (trim (token g))) of
              Inr userInfo \<Rightarrow>
                w\<lparr>sent := sent w @ [user_info_request (trim (token g))],
                  localStorage := (localStorage w)(''authToken'' \<mapsto> trim (token g)),
                  setItems := setItems w @
                    [(''authToken'', trim (token g),
                      sent w @ [user_info_request (trim (token g))])]\<rparr>
            | Inl err \<Rightarrow>
                w\<lparr>sent := sent w @ [user_info_request (trim (token g))],
                  localStorage := (localStorage w)(''authToken'' := None)\<rparr>))
   \<and> (srv (user_info_request (trim (token g))) = Inl e \<longrightarrow>
        setItems (snd (handleTokenSubmit srv g w)) = setItems w)
   \<and> (srv (user_info_request (trim tok)) = Inl e \<longrightarrow>
        setItems (snd (setAndValidateToken srv tok w)) = setItems w)
   \<and> (trim (token g) \<noteq> [] \<and> srv (user_info_request (trim (token g))) = Inr info \<longrightarrow>
        setItems (snd (handleTokenSubmit srv g w)) =
          setItems w @ [(''authToken'', trim (token g),
                         sent w @ [user_info_request (trim (token g))])])
   \<and> snd (handleTokenSubmit_basic b w) =
     (if trim (token b) = [] then w
      else w\<lparr>localStorage := (localStorage w)(''authToken'' \<mapsto> trim (token b)),
             setItems := setItems w @ [(''authToken'', trim (token b), sent w)]\<rparr>)"
proof -
  have a: "snd (handleTokenSubmit srv g w) =
     (if trim (token g) = [] then w
      else (case srv (user_info_request (trim (token g))) of
              Inr userInfo \<Rightarrow>
                w\<lparr>sent := sent w @ [user_info_request (trim (token g))],
                  localStorage := (localStorage w)(''authToken'' \<mapsto> trim (token g)),
                  setItems := setItems w @
                    [(''authToken'', trim (token g),
                      sent w @ [user_info_request (trim (token g))])]\<rparr>
            | Inl err \<Rightarrow>
                w\<lparr>sent := sent w @ [user_info_request (trim (token g))],
                  localStorage := (localStorage w)(''authToken'' := None)\<rparr>))"
    by (simp add: handleTokenSubmit_def setAndValidateToken_def validateToken_def trim_idem
          setItem_def removeItem_def Let_def split: sum.splits)
  have b: "srv (user_info_request (trim (token g))) = Inl e \<longrightarrow>
        setItems (snd (handleTokenSubmit srv g w)) = setItems w"
    unfolding a by simp
  have c: "srv (user_info_request (trim tok)) = Inl e \<longrightarrow>
        setItems (snd (setAndValidateToken srv tok w)) = setItems w"
    by (simp add: setAndValidateToken_def validateToken_def removeItem_def Let_def)
  have d: "trim (token g) \<noteq> [] \<and> srv (user_info_request (trim (token g))) = Inr info \<longrightarrow>
        setItems (snd (handleTokenSubmit srv g w)) =
          setItems w @ [(''authToken'', trim (token g),
                         sent w @ [user_info_request (trim (token g))])]"
    unfolding a by simp
  have f: "snd (handleTokenSubmit_basic b w) =
     (if trim (token b) = [] then w
      else w\<lparr>localStorage := (localStorage w)(''authToken'' \<mapsto> trim (token b)),
             setItems := setItems w @ [(''authToken'', trim (token b), sent w)]\<rparr>)"
    by (simp add: handleTokenSubmit_basic_def isValidTokenFormat_def trim_idem setItem_def)
  from a b c d f show ?thesis by blast
qed

text \<open>
  Instances: the token \<open>bad\<close> is submitted to a server that answers 401, and the token
  \<open>tok\<close> to a server that accepts it.
\<close>

theorem handleTokenSubmit_stores_after_validation_witness:
  "rejecting_server (user_info_request (trim ''bad'')) =
     Inl \<lparr>message = ''Request failed with status code 401'', code = Some ''ERR_BAD_REQUEST'',
          response_status = Some 401, config_url = Some ''/user/info''\<rparr> \<and>
   setItems (snd (handleTokenSubmit rejecting_server (initial_gate\<lparr>token := ''bad''\<rparr>)
                    (fresh_browser [''authToken'' \<mapsto> ''good'']))) = [] \<and>
   setItems (snd (setAndValidateToken rejecting_server ''bad''
                    (fresh_browser [''authToken'' \<mapsto> ''good'']))) = [] \<and>
   trim ''tok'' \<noteq> [] \<and>
   accepting_server \<lparr>username = ''alice'', roles = [''admin''], groups = [''ops'']\<rparr>
       (user_info_request (trim ''tok''))
     = Inr \<lparr>username = ''alice'', roles = [''admin''], groups = [''ops'']\<rparr> \<and>
   setItems (snd (handleTokenSubmit
                    (accepting_server \<lparr>username = ''alice'', roles = [''admin''], groups = [''ops'']\<rparr>)
                    (initial_gate\<lparr>token := ''tok''\<rparr>) (fresh_browser Map.empty)))
     = [(''authToken'', ''tok'', [user_info_request ''tok''])]"
proof -
  have t: "trim ''bad'' = ''bad''" "trim ''tok'' = ''tok''"
    by code_simp+
  have r: "rejecting_server (user_info_request ''bad'') =
     Inl \<lparr>message = ''Request failed with status code 401'', code = Some ''ERR_BAD_REQUEST'',
          response_status = Some 401, config_url = Some ''/user/info''\<rparr>"
    by (simp add: rejecting_server_def user_info_request_def)
  have k: "accepting_server \<lparr>username = ''alice'', roles = [''admin''], groups = [''ops'']\<rparr>
       (user_info_request ''tok'')
     = Inr \<lparr>username = ''alice'', roles = [''admin''], groups = [''ops'']\<rparr>"
    by (simp add: accepting_server_def)
  have A: "setItems (snd (handleTokenSubmit rejecting_server (initial_gate\<lparr>token := ''bad''\<rparr>)
                    (fresh_browser [''authToken'' \<mapsto> ''good'']))) =
           setItems (fresh_browser [''authToken'' \<mapsto> ''good''])"
    using r t
      handleTokenSubmit_stores_after_validation [where srv = rejecting_server
        and g = "initial_gate\<lparr>token := ''bad''\<rparr>"
        and w = "fresh_browser [''authToken'' \<mapsto> ''good'']"
        and e = "\<lparr>message = ''Request failed with status code 401'', code = Some ''ERR_BAD_REQUEST'',
          response_status = Some 401, config_url = Some ''/user/info''\<rparr>"]
    by simp
  have B: "setItems (snd (setAndValidateToken rejecting_server ''bad''
                    (fresh_browser [''authToken'' \<mapsto> ''good'']))) =
           setItems (fresh_browser [''authToken'' \<mapsto> ''good''])"
    using r t
      handleTokenSubmit_stores_after_validation [where srv = rejecting_server
        and tok = "''bad''"
        and w = "fresh_browser [''authToken'' \<mapsto> ''good'']"
        and e = "\<lparr>message = ''Request failed with status code 401'', code = Some ''ERR_BAD_REQUEST'',
          response_status = Some 401, config_url = Some ''/user/info''\<rparr>"]
    by simp
  have C: "setItems (snd (handleTokenSubmit
                    (accepting_server \<lparr>username = ''alice'', roles = [''admin''], groups = [''ops'']\<rparr>)
                    (initial_gate\<lparr>token := ''tok''\<rparr>) (fresh_browser Map.empty)))
     = setItems (fresh_browser Map.empty) @
         [(''authToken'', ''tok'', sent (fresh_browser Map.empty) @ [user_info_request ''tok''])]"
    using k t
      handleTokenSubmit_stores_after_validation [where
        srv = "accepting_server \<lparr>username = ''alice'', roles = [''admin''], groups = [''ops'']\<rparr>"
        and g = "initial_gate\<lparr>token := ''tok''\<rparr>"
        and w = "fresh_browser Map.empty"
        and info = "\<lparr>username = ''alice'', roles = [''admin''], groups = [''ops'']\<rparr>"]
    by simp
  from A B C r k t show ?thesis
    by (simp add: fresh_browser_def)
qed

section \<open>Properties of the session gate\<close>

lemma race_late:
  "p = Never \<or> (\<exists>t r. p = Settles t r \<and> API_VERSION_CHECK_TIMEOUT \<le> t) \<Longrightarrow>
   race p = (API_VERSION_CHECK_TIMEOUT, Rejected (js_Error ''API connection timeout''))"
  by (auto simp: race_def)

lemma race_time: "fst (race p) \<le> API_VERSION_CHECK_TIMEOUT"
  by (cases p) (auto simp: race_def)

lemma checkApiVersion_settles: "\<not> checkingApi (apiStatus (snd (checkApiVersion p g)))"
  unfolding checkApiVersion_def
  by (cases "race p" rule: prod.exhaust; cases "snd (race p)")
     (auto simp: Let_def split: option.splits js_value.splits)

lemma checkApiVersion_time: "fst (checkApiVersion p g) = fst (race p)"
  unfolding checkApiVersion_def
  by (cases "race p" rule: prod.exhaust; cases "snd (race p)")
     (auto simp: Let_def split: option.splits js_value.splits)

lemma checkApiVersion_basic_fields:
  "isAuthenticated (snd (checkApiVersion p g)) = isAuthenticated g"
  "loading (snd (checkApiVersion p g)) = loading g"
  unfolding checkApiVersion_def
  by (cases "race p" rule: prod.exhaust; cases "snd (race p)";
      auto simp: Let_def split: option.splits js_value.splits)+

text \<open>
  C5: the status probe is raced against a timer of 5000 milliseconds. When the probe
  never settles, or settles only when the timer has fired, \<open>checkApiVersion\<close> ends at 5000
  milliseconds with the disconnected status (not checking, not connected, the timeout message);
  and whatever the probe does, \<open>checkApiVersion\<close> ends within 5000 milliseconds with
  \<open>checking\<close> false. A probe that settles before the timer fires wins the race:
  \<open>checkApiVersion\<close> ends at that time, with the status that the outcome of the probe
  gives (disconnected with the message for its error when it failed; connected, with the
  reported version and its compatibility, when it succeeded with a version string;
  connected with the version \<open>unknown\<close> when it reported none; disconnected when the
  reported version is not a string).
\<close>

theorem checkApiVersion_timeout:
  "API_VERSION_CHECK_TIMEOUT = 5000
   \<and> (p = Never \<or> (\<exists>t r. p = Settles t r \<and> API_VERSION_CHECK_TIMEOUT \<le> t) \<longrightarrow>
        checkApiVersion p g =
          (5000, g\<lparr>apiStatus := \<lparr>checkingApi = False, connectedApi = False, version = None,
                                   compatible = False,
                                   status_error = Some ''API connection timeout - server may be down''\<rparr>\<rparr>))
   \<and> fst (checkApiVersion p g) \<le> 5000
   \<and> \<not> checkingApi (apiStatus (snd (checkApiVersion p g)))
   \<and> (s < API_VERSION_CHECK_TIMEOUT \<longrightarrow>
        checkApiVersion (Settles s (Rejected err)) g =
          (s, g\<lparr>apiStatus := \<lparr>checkingApi = False, connectedApi = False, version = None,
                                compatible = False,
                                status_error = Some (probe_failure err)\<rparr>\<rparr>))
   \<and> (s < API_VERSION_CHECK_TIMEOUT \<and> v \<noteq> [] \<longrightarrow>
        checkApiVersion
          (Settles s (Resolved (Some \<lparr>data_version = Some (JString v), data_api_version = a\<rparr>))) g =
          (s, g\<lparr>apiStatus := \<lparr>checkingApi = False, connectedApi = True, version = Some v,
                                compatible = (v \<noteq> ''unknown'' \<and> 0 \<le> compareVersions v ''0.1.0''),
                                status_error = None\<rparr>\<rparr>))
   \<and> (s < API_VERSION_CHECK_TIMEOUT \<longrightarrow>
        checkApiVersion (Settles s (Resolved None)) g =
          (s, g\<lparr>apiStatus := \<lparr>checkingApi = False, connectedApi = True,
                                version = Some ''unknown'', compatible = False,
                                status_error = None\<rparr>\<rparr>))
   \<and> (s < API_VERSION_CHECK_TIMEOUT \<longrightarrow>
        checkApiVersion
          (Settles s (Resolved (Some \<lparr>data_version = Some (JOther True), data_api_version = a\<rparr>))) g =
          (s, g\<lparr>apiStatus := \<lparr>checkingApi = False, connectedApi = False, version = None,
                                compatible = False,
                                status_error = Some ''Unable to connect to API''\<rparr>\<rparr>))"
proof -
  have a: "API_VERSION_CHECK_TIMEOUT = 5000"
    by (simp add: API_VERSION_CHECK_TIMEOUT_def)
  have b: "p = Never \<or> (\<exists>t r. p = Settles t r \<and> API_VERSION_CHECK_TIMEOUT \<le> t) \<longrightarrow>
        checkApiVersion p g =
          (5000, g\<lparr>apiStatus := \<lparr>checkingApi = False, connectedApi = False, version = None,
                                   compatible = False,
                                   status_error = Some ''API connection timeout - server may be down''\<rparr>\<rparr>)"
  proof
    assume "p = Never \<or> (\<exists>t r. p = Settles t r \<and> API_VERSION_CHECK_TIMEOUT \<le> t)"
    then have "race p = (API_VERSION_CHECK_TIMEOUT, Rejected (js_Error ''API connection timeout''))"
      by (rule race_late)
    then show "checkApiVersion p g =
          (5000, g\<lparr>apiStatus := \<lparr>checkingApi = False, connectedApi = False, version = None,
                                   compatible = False,
                                   status_error = Some ''API connection timeout - server may be down''\<rparr>\<rparr>)"
      by (simp add: checkApiVersion_def probe_failure_def js_Error_def a)
  qed
  have c: "fst (checkApiVersion p g) \<le> 5000"
    using race_time [of p] by (simp add: checkApiVersion_time a)
  have early: "s < API_VERSION_CHECK_TIMEOUT \<Longrightarrow> race (Settles s r) = (s, r)" for r
    by (simp add: race_def)
  have d: "s < API_VERSION_CHECK_TIMEOUT \<longrightarrow>
        checkApiVersion (Settles s (Rejected err)) g =
          (s, g\<lparr>apiStatus := \<lparr>checkingApi = False, connectedApi = False, version = None,
                                compatible = False,
                                status_error = Some (probe_failure err)\<rparr>\<rparr>)"
    by (simp add: checkApiVersion_def early)
  have e: "s < API_VERSION_CHECK_TIMEOUT \<and> v \<noteq> [] \<longrightarrow>
        checkApiVersion
          (Settles s (Resolved (Some \<lparr>data_version = Some (JString v), data_api_version = a\<rparr>))) g =
          (s, g\<lparr>apiStatus := \<lparr>checkingApi = False, connectedApi = True, version = Some v,
                                compatible = (v \<noteq> ''unknown'' \<and> 0 \<le> compareVersions v ''0.1.0''),
                                status_error = None\<rparr>\<rparr>)"
    by (simp add: checkApiVersion_def early value_or_def MINIMUM_API_VERSION_def)
  have f: "s < API_VERSION_CHECK_TIMEOUT \<longrightarrow>
        checkApiVersion (Settles s (Resolved None)) g =
          (s, g\<lparr>apiStatus := \<lparr>checkingApi = False, connectedApi = True,
                                version = Some ''unknown'', compatible = False,
                                status_error = None\<rparr>\<rparr>)"
    by (simp add: checkApiVersion_def early value_or_def)
  have h: "s < API_VERSION_CHECK_TIMEOUT \<longrightarrow>
        checkApiVersion
          (Settles s (Resolved (Some \<lparr>data_version = Some (JOther True), data_api_version = a\<rparr>))) g =
          (s, g\<lparr>apiStatus := \<lparr>checkingApi = False, connectedApi = False, version = None,
                                compatible = False,
                                status_error = Some ''Unable to connect to API''\<rparr>\<rparr>)"
    by (simp add: checkApiVersion_def early value_or_def probe_failure_def js_Error_def
          startsWith_def)
  from a b c d e f h checkApiVersion_settles [of p g] show ?thesis by blast
qed

text \<open>
  Instances: a probe that never settles, one that succeeds after 7000 milliseconds, one
  that reports the version 0.2.0 after 1 millisecond, and one that fails with a network
  error after 1 millisecond.
\<close>

theorem checkApiVersion_timeout_witness:
  "checkApiVersion Never initial_gate =
     (5000, initial_gate\<lparr>apiStatus := \<lparr>checkingApi = False, connectedApi = False, version = None,
                                   compatible = False,
                                   status_error = Some ''API connection timeout - server may be down''\<rparr>\<rparr>)
   \<and> API_VERSION_CHECK_TIMEOUT \<le> 7000
   \<and> checkApiVersion
        (Settles 7000 (Resolved (Some \<lparr>data_version = Some (JString ''0.2.0''),
                                        data_api_version = None\<rparr>)))
        initial_gate =
     (5000, initial_gate\<lparr>apiStatus := \<lparr>checkingApi = False, connectedApi = False, version = None,
                                   compatible = False,
                                   status_error = Some ''API connection timeout - server may be down''\<rparr>\<rparr>)
   \<and> 1 < API_VERSION_CHECK_TIMEOUT
   \<and> checkApiVersion
        (Settles 1 (Resolved (Some \<lparr>data_version = Some (JString ''0.2.0''),
                                     data_api_version = None\<rparr>)))
        initial_gate =
     (1, initial_gate\<lparr>apiStatus := \<lparr>checkingApi = False, connectedApi = True,
                                      version = Some ''0.2.0'', compatible = True,
                                      status_error = None\<rparr>\<rparr>)
   \<and> checkApiVersion
        (Settles 1 (Rejected \<lparr>message = ''Network Error'', code = Some ''ERR_NETWORK'',
                              response_status = None, config_url = Some ''/status/''\<rparr>))
        initial_gate =
     (1, initial_gate\<lparr>apiStatus := \<lparr>checkingApi = False, connectedApi = False, version = None,
                                      compatible = False,
                                      status_error = Some ''Network connection failed''\<rparr>\<rparr>)"
proof -
  have h: "API_VERSION_CHECK_TIMEOUT \<le> 7000" "1 < API_VERSION_CHECK_TIMEOUT"
    by (simp_all add: API_VERSION_CHECK_TIMEOUT_def)
  have cv: "(''0.2.0'' \<noteq> ''unknown'' \<and> 0 \<le> compareVersions ''0.2.0'' ''0.1.0'') = True"
    by code_simp
  have ne: "''0.2.0'' \<noteq> []"
    by simp
  have pf: "probe_failure \<lparr>message = ''Network Error'', code = Some ''ERR_NETWORK'',
                              response_status = None, config_url = Some ''/status/''\<rparr>
            = ''Network connection failed''"
    by (simp add: probe_failure_def startsWith_def)
  note early = checkApiVersion_timeout [where p = Never and g = initial_gate and s = 1
      and v = "''0.2.0''" and a = None
      and err = "\<lparr>message = ''Network Error'', code = Some ''ERR_NETWORK'',
                              response_status = None, config_url = Some ''/status/''\<rparr>"]
  note late = checkApiVersion_timeout [where
      p = "Settles 7000 (Resolved (Some \<lparr>data_version = Some (JString ''0.2.0''),
                                        data_api_version = None\<rparr>))"
      and g = initial_gate and s = 1]
  have W1: "checkApiVersion Never initial_gate =
     (5000, initial_gate\<lparr>apiStatus := \<lparr>checkingApi = False, connectedApi = False, version = None,
                                   compatible = False,
                                   status_error = Some ''API connection timeout - server may be down''\<rparr>\<rparr>)"
    using early by blast
  have W2: "checkApiVersion
        (Settles 7000 (Resolved (Some \<lparr>data_version = Some (JString ''0.2.0''),
                                        data_api_version = None\<rparr>)))
        initial_gate =
     (5000, initial_gate\<lparr>apiStatus := \<lparr>checkingApi = False, connectedApi = False, version = None,
                                   compatible = False,
                                   status_error = Some ''API connection timeout - server may be down''\<rparr>\<rparr>)"
    using h(1) late by blast
  have W3: "checkApiVersion
        (Settles 1 (Resolved (Some \<lparr>data_version = Some (JString ''0.2.0''),
                                     data_api_version = None\<rparr>)))
        initial_gate =
     (1, initial_gate\<lparr>apiStatus := \<lparr>checkingApi = False, connectedApi = True,
                                      version = Some ''0.2.0'',
                                      compatible = (''0.2.0'' \<noteq> ''unknown'' \<and>
                                                    0 \<le> compareVersions ''0.2.0'' ''0.1.0''),
                                      status_error = None\<rparr>\<rparr>)"
    using h(2) ne early by blast
  have W4: "checkApiVersion
        (Settles 1 (Rejected \<lparr>message = ''Network Error'', code = Some ''ERR_NETWORK'',
                              response_status = None, config_url = Some ''/status/''\<rparr>))
        initial_gate =
     (1, initial_gate\<lparr>apiStatus := \<lparr>checkingApi = False, connectedApi = False, version = None,
                                      compatible = False,
                                      status_error =
                                        Some (probe_failure
                                          \<lparr>message = ''Network Error'', code = Some ''ERR_NETWORK'',
                                           response_status = None,
                                           config_url = Some ''/status/''\<rparr>)\<rparr>\<rparr>)"
    using h(2) early by blast
  from h W1 W2 W3 [unfolded cv] W4 [unfolded pf] show ?thesis
    by blast
qed

text \<open>
  C6, as the claim words it, fails in one point: the gate does not keep the user identity.
  Two servers that report different users leave the same state of the gate and of the
  browser behind.
\<close>

theorem checkExistingAuth_keeps_no_identity:
  "\<lparr>username = ''alice'', roles = [''admin''], groups = [''ops'']\<rparr>
     \<noteq> \<lparr>username = ''bob'', roles = [], groups = []\<rparr> \<and>
   checkExistingAuth
       (accepting_server \<lparr>username = ''alice'', roles = [''admin''], groups = [''ops'']\<rparr>)
       (snd (checkApiVersion Never initial_gate)) (fresh_browser [''authToken'' \<mapsto> ''tok''])
     = checkExistingAuth
       (accepting_server \<lparr>username = ''bob'', roles = [], groups = []\<rparr>)
       (snd (checkApiVersion Never initial_gate)) (fresh_browser [''authToken'' \<mapsto> ''tok'']) \<and>
   fst (checkExistingAuth
       (accepting_server \<lparr>username = ''alice'', roles = [''admin''], groups = [''ops'']\<rparr>)
       (snd (checkApiVersion Never initial_gate)) (fresh_browser [''authToken'' \<mapsto> ''tok'']))
     = \<lparr>isAuthenticated = True, loading = False, error = None, showToken = False, token = [],
        validatingToken = False,
        apiStatus = \<lparr>checkingApi = False, connectedApi = False, version = None,
                     compatible = False,
                     status_error = Some ''API connection timeout - server may be down''\<rparr>\<rparr>"
proof -
  have t: "trim ''tok'' = ''tok''"
    by code_simp
  have g: "snd (checkApiVersion Never initial_gate)
     = \<lparr>isAuthenticated = False, loading = True, error = None, showToken = False, token = [],
        validatingToken = False,
        apiStatus = \<lparr>checkingApi = False, connectedApi = False, version = None,
                     compatible = False,
                     status_error = Some ''API connection timeout - server may be down''\<rparr>\<rparr>"
    by (simp add: checkApiVersion_def race_def probe_failure_def js_Error_def initial_gate_def)
  show ?thesis
    unfolding g
    by (simp add: checkExistingAuth_def validateToken_def accepting_server_def fresh_browser_def t)
qed

text \<open>
  C6, amended. The second effect does nothing while the API check is running, as in the
  initial state, and the check always ends with \<open>checking\<close> false. Then a stored token
  that is not blank is sent to \<open>/user/info\<close>: when the server accepts it the gate is
  authenticated and renders the protected pages (the identity in the reply is not kept);
  when the server rejects it the token is removed from \<open>localStorage\<close> and the gate
  renders the credential form with the session-expired message.
\<close>

theorem startup_validates_persisted_token:
  "authEffect srv initial_gate w = (initial_gate, w)
   \<and> (checkingApi (apiStatus g) \<longrightarrow> authEffect srv g w = (g, w))
   \<and> \<not> checkingApi (apiStatus (snd (checkApiVersion p initial_gate)))
   \<and> (localStorage w ''authToken'' = Some tok \<and> trim tok \<noteq> [] \<and>
        srv (user_info_request tok) = Inr info \<longrightarrow>
        startup srv p w =
          ((snd (checkApiVersion p initial_gate))\<lparr>isAuthenticated := True, loading := False\<rparr>,
           w\<lparr>sent := sent w @ [user_info_request tok]\<rparr>)
        \<and> render (fst (startup srv p w)) = Children)
   \<and> (localStorage w ''authToken'' = Some tok \<and> trim tok \<noteq> [] \<and>
        srv (user_info_request tok) = Inl err \<longrightarrow>
        startup srv p w =
          ((snd (checkApiVersion p initial_gate))
             \<lparr>error := Some ''Your session has expired. Please enter a valid token.'',
              loading := False\<rparr>,
           w\<lparr>sent := sent w @ [user_info_request tok],
             localStorage := (localStorage w)(''authToken'' := None)\<rparr>)
        \<and> render (fst (startup srv p w)) = CredentialForm
        \<and> localStorage (snd (startup srv p w)) ''authToken'' = None)"
proof -
  let ?G = "snd (checkApiVersion p initial_gate)"
  have i: "checkingApi (apiStatus initial_gate)" "\<not> isAuthenticated initial_gate"
    by (simp_all add: initial_gate_def)
  have a: "authEffect srv initial_gate w = (initial_gate, w)"
    using i by (simp add: authEffect_def)
  have b: "checkingApi (apiStatus g) \<longrightarrow> authEffect srv g w = (g, w)"
    by (simp add: authEffect_def)
  have c: "\<not> checkingApi (apiStatus ?G)"
    by (rule checkApiVersion_settles)
  have s: "startup srv p w = checkExistingAuth srv ?G w"
    unfolding startup_def a using c by (simp add: authEffect_def)
  have na: "\<not> isAuthenticated ?G"
    using i by (simp add: checkApiVersion_basic_fields)
  have d: "localStorage w ''authToken'' = Some tok \<and> trim tok \<noteq> [] \<and>
        srv (user_info_request tok) = Inr info \<longrightarrow>
        startup srv p w =
          (?G\<lparr>isAuthenticated := True, loading := False\<rparr>,
           w\<lparr>sent := sent w @ [user_info_request tok]\<rparr>)
        \<and> render (fst (startup srv p w)) = Children"
    using c by (auto simp: s checkExistingAuth_def validateToken_def render_def trim_Nil)
  have e: "localStorage w ''authToken'' = Some tok \<and> trim tok \<noteq> [] \<and>
        srv (user_info_request tok) = Inl err \<longrightarrow>
        startup srv p w =
          (?G\<lparr>error := Some ''Your session has expired. Please enter a valid token.'',
              loading := False\<rparr>,
           w\<lparr>sent := sent w @ [user_info_request tok],
             localStorage := (localStorage w)(''authToken'' := None)\<rparr>)
        \<and> render (fst (startup srv p w)) = CredentialForm
        \<and> localStorage (snd (startup srv p w)) ''authToken'' = None"
    using c na
    by (auto simp: s checkExistingAuth_def validateToken_def render_def removeItem_def trim_Nil)
  from a b c d e show ?thesis by blast
qed

text \<open>
  Instances: the token \<open>tok\<close> is stored and the probe never settles; one server accepts
  the token, the other answers 401.
\<close>

theorem startup_validates_persisted_token_witness:
  "checkingApi (apiStatus initial_gate) \<and>
   localStorage (fresh_browser [''authToken'' \<mapsto> ''tok'']) ''authToken'' = Some ''tok'' \<and>
   trim ''tok'' \<noteq> [] \<and>
   render (fst (startup (accepting_server \<lparr>username = ''alice'', roles = [''admin''], groups = [''ops'']\<rparr>)
                  Never (fresh_browser [''authToken'' \<mapsto> ''tok'']))) = Children \<and>
   render (fst (startup rejecting_server Never (fresh_browser [''authToken'' \<mapsto> ''tok''])))
     = CredentialForm \<and>
   error (fst (startup rejecting_server Never (fresh_browser [''authToken'' \<mapsto> ''tok''])))
     = Some ''Your session has expired. Please enter a valid token.'' \<and>
   localStorage (snd (startup rejecting_server Never (fresh_browser [''authToken'' \<mapsto> ''tok''])))
     ''authToken'' = None"
proof -
  have c: "checkingApi (apiStatus initial_gate)"
    by (simp add: initial_gate_def)
  have s: "localStorage (fresh_browser [''authToken'' \<mapsto> ''tok'']) ''authToken'' = Some ''tok''"
    by (simp add: fresh_browser_def)
  have t: "trim ''tok'' \<noteq> []"
    by code_simp
  have ok: "accepting_server \<lparr>username = ''alice'', roles = [''admin''], groups = [''ops'']\<rparr>
              (user_info_request ''tok'')
            = Inr \<lparr>username = ''alice'', roles = [''admin''], groups = [''ops'']\<rparr>"
    by (simp add: accepting_server_def)
  have no: "rejecting_server (user_info_request ''tok'') =
     Inl \<lparr>message = ''Request failed with status code 401'', code = Some ''ERR_BAD_REQUEST'',
          response_status = Some 401, config_url = Some ''/user/info''\<rparr>"
    by (simp add: rejecting_server_def user_info_request_def)
  have A: "render (fst (startup (accepting_server \<lparr>username = ''alice'', roles = [''admin''], groups = [''ops'']\<rparr>)
                  Never (fresh_browser [''authToken'' \<mapsto> ''tok'']))) = Children"
    using s t ok
      startup_validates_persisted_token [where
        srv = "accepting_server \<lparr>username = ''alice'', roles = [''admin''], groups = [''ops'']\<rparr>"
        and w = "fresh_browser [''authToken'' \<mapsto> ''tok'']" and g = initial_gate and p = Never
        and tok = "''tok''"
        and info = "\<lparr>username = ''alice'', roles = [''admin''], groups = [''ops'']\<rparr>"]
    by blast
  have B: "startup rejecting_server Never (fresh_browser [''authToken'' \<mapsto> ''tok'']) =
          ((snd (checkApiVersion Never initial_gate))
             \<lparr>error := Some ''Your session has expired. Please enter a valid token.'',
              loading := False\<rparr>,
           (fresh_browser [''authToken'' \<mapsto> ''tok''])
             \<lparr>sent := sent (fresh_browser [''authToken'' \<mapsto> ''tok'']) @ [user_info_request ''tok''],
              localStorage := (localStorage (fresh_browser [''authToken'' \<mapsto> ''tok'']))
                                (''authToken'' := None)\<rparr>)
        \<and> render (fst (startup rejecting_server Never (fresh_browser [''authToken'' \<mapsto> ''tok'']))) = CredentialForm
        \<and> localStorage (snd (startup rejecting_server Never (fresh_browser [''authToken'' \<mapsto> ''tok'']))) ''authToken'' = None"
    using s t no
      startup_validates_persisted_token [where
        srv = rejecting_server
        and w = "fresh_browser [''authToken'' \<mapsto> ''tok'']" and g = initial_gate and p = Never
        and tok = "''tok''"
        and err = "\<lparr>message = ''Request failed with status code 401'', code = Some ''ERR_BAD_REQUEST'',
            response_status = Some 401, config_url = Some ''/user/info''\<rparr>"]
    by blast
  from B have E: "error (fst (startup rejecting_server Never (fresh_browser [''authToken'' \<mapsto> ''tok''])))
     = Some ''Your session has expired. Please enter a valid token.''"
    by simp
  from c s t A B E show ?thesis by blast
qed

section \<open>Properties of the answers 401 and 403\<close>

text \<open>
  The request that validates a token goes through a client of its own, which has no
  interceptors: \<open>validateToken\<close> only sends it, and what follows a failure is up to the
  two callers, which remove the token and neither alert nor reload.
\<close>

lemma validateToken_browser:
  "snd (validateToken srv tok w) = w\<lparr>sent := sent w @ [user_info_request tok]\<rparr>"
  by (simp add: validateToken_def Let_def)

lemma checkExistingAuth_rejected:
  "localStorage w ''authToken'' = Some tok \<Longrightarrow> trim tok \<noteq> [] \<Longrightarrow>
   srv (user_info_request tok) = Inl err \<Longrightarrow>
   snd (checkExistingAuth srv g w) =
     w\<lparr>sent := sent w @ [user_info_request tok],
       localStorage := (localStorage w)(''authToken'' := None)\<rparr>"
  by (auto simp: checkExistingAuth_def validateToken_def removeItem_def Let_def trim_Nil)

lemma setAndValidateToken_rejected:
  "trim tok \<noteq> [] \<Longrightarrow> srv (user_info_request (trim tok)) = Inl err \<Longrightarrow>
   snd (setAndValidateToken srv tok w) =
     w\<lparr>sent := sent w @ [user_info_request (trim tok)],
       localStorage := (localStorage w)(''authToken'' := None)\<rparr>"
  by (auto simp: setAndValidateToken_def validateToken_def removeItem_def Let_def trim_Nil)

text \<open>
  C3, as the claim words it, fails: \<open>/user/info\<close> is a private path, and a 401 for the
  request that validates the stored token at startup forces no reload (and shows no
  alert).
\<close>

theorem validation_401_no_reload:
  "\<not> isPublicEndpoint ''/user/info'' \<and>
   rejecting_server (user_info_request ''tok'') =
     Inl \<lparr>message = ''Request failed with status code 401'', code = Some ''ERR_BAD_REQUEST'',
          response_status = Some 401, config_url = Some ''/user/info''\<rparr> \<and>
   sent (snd (startup rejecting_server Never (fresh_browser [''authToken'' \<mapsto> ''tok''])))
     = [user_info_request ''tok''] \<and>
   reloads (snd (startup rejecting_server Never (fresh_browser [''authToken'' \<mapsto> ''tok'']))) = 0 \<and>
   alerts (snd (startup rejecting_server Never (fresh_browser [''authToken'' \<mapsto> ''tok'']))) = []"
proof -
  have t: "trim ''tok'' = ''tok''"
    by code_simp
  have p: "\<not> isPublicEndpoint ''/user/info''"
    by (simp add: isPublicEndpoint_def PUBLIC_ENDPOINTS_def startsWith_def)
  have c: "\<not> checkingApi (apiStatus (snd (checkApiVersion Never initial_gate)))"
    by (rule checkApiVersion_settles)
  have s: "startup rejecting_server Never (fresh_browser [''authToken'' \<mapsto> ''tok'']) =
           checkExistingAuth rejecting_server (snd (checkApiVersion Never initial_gate))
             (fresh_browser [''authToken'' \<mapsto> ''tok''])"
    using c by (simp add: startup_def authEffect_def initial_gate_def)
  show ?thesis
    unfolding s using p
    by (simp add: checkExistingAuth_def validateToken_def rejecting_server_def
          user_info_request_def removeItem_def fresh_browser_def t)
qed

text \<open>
  C3, amended. When a request made through the API client to a private path (one that
  does not start with an entry of the list; any path in the earlier revision) is answered
  with 401, the response interceptor removes \<open>authToken\<close> from \<open>localStorage\<close>, shows the
  session-expired message and reloads the page; afterwards no token is stored. The request
  to \<open>/user/info\<close> that validates a token does not pass the interceptor: \<open>validateToken\<close>
  only sends it, and when it fails, with 401 or otherwise, \<open>checkExistingAuth\<close> and
  \<open>setAndValidateToken\<close> remove the token without a reload.
\<close>

theorem response_interceptor_401:
  "(config_url e = Some u \<and> \<not> isPublicEndpoint u \<and> response_status e = Some 401 \<longrightarrow>
      response_interceptor e w =
        w\<lparr>localStorage := (localStorage w)(''authToken'' := None),
          alerts := alerts w @ [''Your session has expired. Please log in again.''],
          reloads := Suc (reloads w)\<rparr>
      \<and> localStorage (response_interceptor e w) ''authToken'' = None
      \<and> reloads (response_interceptor e w) = Suc (reloads w))
   \<and> (response_status e = Some 401 \<longrightarrow>
      response_interceptor_earlier e w =
        w\<lparr>localStorage := (localStorage w)(''authToken'' := None),
          alerts := alerts w @ [''Your session has expired. Please log in again.''],
          reloads := Suc (reloads w)\<rparr>
      \<and> localStorage (response_interceptor_earlier e w) ''authToken'' = None
      \<and> reloads (response_interceptor_earlier e w) = Suc (reloads w))
   \<and> snd (validateToken srv tok w) = w\<lparr>sent := sent w @ [user_info_request tok]\<rparr>
   \<and> (localStorage w ''authToken'' = Some tok \<and> trim tok \<noteq> [] \<and>
        srv (user_info_request tok) = Inl err \<longrightarrow>
        snd (checkExistingAuth srv g w) =
          w\<lparr>sent := sent w @ [user_info_request tok],
            localStorage := (localStorage w)(''authToken'' := None)\<rparr>
        \<and> reloads (snd (checkExistingAuth srv g w)) = reloads w)
   \<and> (trim tok \<noteq> [] \<and> srv (user_info_request (trim tok)) = Inl err \<longrightarrow>
        snd (setAndValidateToken srv tok w) =
          w\<lparr>sent := sent w @ [user_info_request (trim tok)],
            localStorage := (localStorage w)(''authToken'' := None)\<rparr>
        \<and> reloads (snd (setAndValidateToken srv tok w)) = reloads w)"
proof -
  have a: "(config_url e = Some u \<and> \<not> isPublicEndpoint u \<and> response_status e = Some 401 \<longrightarrow>
      response_interceptor e w =
        w\<lparr>localStorage := (localStorage w)(''authToken'' := None),
          alerts := alerts w @ [''Your session has expired. Please log in again.''],
          reloads := Suc (reloads w)\<rparr>
      \<and> localStorage (response_interceptor e w) ''authToken'' = None
      \<and> reloads (response_interceptor e w) = Suc (reloads w))
   \<and> (response_status e = Some 401 \<longrightarrow>
      response_interceptor_earlier e w =
        w\<lparr>localStorage := (localStorage w)(''authToken'' := None),
          alerts := alerts w @ [''Your session has expired. Please log in again.''],
          reloads := Suc (reloads w)\<rparr>
      \<and> localStorage (response_interceptor_earlier e w) ''authToken'' = None
      \<and> reloads (response_interceptor_earlier e w) = Suc (reloads w))"
    by (simp add: response_interceptor_def response_interceptor_earlier_def
          removeItem_def alert_def reload_def)
  have b: "localStorage w ''authToken'' = Some tok \<and> trim tok \<noteq> [] \<and>
        srv (user_info_request tok) = Inl err \<longrightarrow>
        snd (checkExistingAuth srv g w) =
          w\<lparr>sent := sent w @ [user_info_request tok],
            localStorage := (localStorage w)(''authToken'' := None)\<rparr>
        \<and> reloads (snd (checkExistingAuth srv g w)) = reloads w"
    by (simp add: checkExistingAuth_rejected)
  have c: "trim tok \<noteq> [] \<and> srv (user_info_request (trim tok)) = Inl err \<longrightarrow>
        snd (setAndValidateToken srv tok w) =
          w\<lparr>sent := sent w @ [user_info_request (trim tok)],
            localStorage := (localStorage w)(''authToken'' := None)\<rparr>
        \<and> reloads (snd (setAndValidateToken srv tok w)) = reloads w"
    by (simp add: setAndValidateToken_rejected)
  from a b c validateToken_browser [of srv tok w] show ?thesis by blast
qed

text \<open>
  Instances: a 401 for \<open>/organization\<close> in the interceptors, and a 401 for the validation
  of the stored token \<open>tok\<close>, each with \<open>tok\<close> stored.
\<close>

theorem response_interceptor_401_witness:
  "\<not> isPublicEndpoint ''/organization'' \<and>
   localStorage (fresh_browser [''authToken'' \<mapsto> ''tok'']) ''authToken'' = Some ''tok'' \<and>
   localStorage (response_interceptor
       \<lparr>message = ''Request failed with status code 401'', code = Some ''ERR_BAD_REQUEST'',
        response_status = Some 401, config_url = Some ''/organization''\<rparr>
       (fresh_browser [''authToken'' \<mapsto> ''tok''])) ''authToken'' = None \<and>
   reloads (response_interceptor
       \<lparr>message = ''Request failed with status code 401'', code = Some ''ERR_BAD_REQUEST'',
        response_status = Some 401, config_url = Some ''/organization''\<rparr>
       (fresh_browser [''authToken'' \<mapsto> ''tok''])) = 1 \<and>
   localStorage (response_interceptor_earlier
       \<lparr>message = ''Request failed with status code 401'', code = Some ''ERR_BAD_REQUEST'',
        response_status = Some 401, config_url = Some ''/organization''\<rparr>
       (fresh_browser [''authToken'' \<mapsto> ''tok''])) ''authToken'' = None \<and>
   reloads (response_interceptor_earlier
       \<lparr>message = ''Request failed with status code 401'', code = Some ''ERR_BAD_REQUEST'',
        response_status = Some 401, config_url = Some ''/organization''\<rparr>
       (fresh_browser [''authToken'' \<mapsto> ''tok''])) = 1 \<and>
   trim ''tok'' \<noteq> [] \<and>
   rejecting_server (user_info_request ''tok'') =
     Inl \<lparr>message = ''Request failed with status code 401'', code = Some ''ERR_BAD_REQUEST'',
          response_status = Some 401, config_url = Some ''/user/info''\<rparr> \<and>
   localStorage (snd (checkExistingAuth rejecting_server initial_gate
                        (fresh_browser [''authToken'' \<mapsto> ''tok'']))) ''authToken'' = None \<and>
   reloads (snd (checkExistingAuth rejecting_server initial_gate
                   (fresh_browser [''authToken'' \<mapsto> ''tok'']))) = 0 \<and>
   localStorage (snd (setAndValidateToken rejecting_server ''tok''
                        (fresh_browser [''authToken'' \<mapsto> ''tok'']))) ''authToken'' = None \<and>
   reloads (snd (setAndValidateToken rejecting_server ''tok''
                   (fresh_browser [''authToken'' \<mapsto> ''tok'']))) = 0"
proof -
  have priv: "\<not> isPublicEndpoint ''/organization''"
    by (simp add: isPublicEndpoint_def PUBLIC_ENDPOINTS_def startsWith_def)
  have tok: "localStorage (fresh_browser [''authToken'' \<mapsto> ''tok'']) ''authToken'' = Some ''tok''"
    "reloads (fresh_browser [''authToken'' \<mapsto> ''tok'']) = 0"
    by (simp_all add: fresh_browser_def)
  have t: "trim ''tok'' = ''tok''"
    by code_simp
  have r: "rejecting_server (user_info_request ''tok'') =
     Inl \<lparr>message = ''Request failed with status code 401'', code = Some ''ERR_BAD_REQUEST'',
          response_status = Some 401, config_url = Some ''/user/info''\<rparr>"
    by (simp add: rejecting_server_def user_info_request_def)
  from priv tok t r
    response_interceptor_401 [where
      e = "\<lparr>message = ''Request failed with status code 401'', code = Some ''ERR_BAD_REQUEST'',
        response_status = Some 401, config_url = Some ''/organization''\<rparr>"
      and u = "''/organization''" and w = "fresh_browser [''authToken'' \<mapsto> ''tok'']"
      and srv = rejecting_server and tok = "''tok''" and g = initial_gate
      and err = "\<lparr>message = ''Request failed with status code 401'', code = Some ''ERR_BAD_REQUEST'',
          response_status = Some 401, config_url = Some ''/user/info''\<rparr>"]
  show ?thesis by simp
qed

text \<open>
  C7, as the claim words it, fails: \<open>/user/info\<close> is a private path, and a 403 for the
  request that validates a token shows no permission-denied message and is followed by
  the removal of the stored token, at startup and when a token is submitted.
\<close>

theorem validation_403_removes_token:
  "\<not> isPublicEndpoint ''/user/info'' \<and>
   forbidding_server (user_info_request ''tok'') =
     Inl \<lparr>message = ''Request failed with status code 403'', code = Some ''ERR_BAD_REQUEST'',
          response_status = Some 403, config_url = Some ''/user/info''\<rparr> \<and>
   localStorage (fresh_browser [''authToken'' \<mapsto> ''tok'']) ''authToken'' = Some ''tok'' \<and>
   localStorage (snd (startup forbidding_server Never (fresh_browser [''authToken'' \<mapsto> ''tok''])))
     ''authToken'' = None \<and>
   alerts (snd (startup forbidding_server Never (fresh_browser [''authToken'' \<mapsto> ''tok'']))) = [] \<and>
   localStorage (snd (setAndValidateToken forbidding_server ''tok''
                        (fresh_browser [''authToken'' \<mapsto> ''tok'']))) ''authToken'' = None \<and>
   alerts (snd (setAndValidateToken forbidding_server ''tok''
                  (fresh_browser [''authToken'' \<mapsto> ''tok'']))) = []"
proof -
  have t: "trim ''tok'' = ''tok''"
    by code_simp
  have p: "\<not> isPublicEndpoint ''/user/info''"
    by (simp add: isPublicEndpoint_def PUBLIC_ENDPOINTS_def startsWith_def)
  have c: "\<not> checkingApi (apiStatus (snd (checkApiVersion Never initial_gate)))"
    by (rule checkApiVersion_settles)
  have s: "startup forbidding_server Never (fresh_browser [''authToken'' \<mapsto> ''tok'']) =
           checkExistingAuth forbidding_server (snd (checkApiVersion Never initial_gate))
             (fresh_browser [''authToken'' \<mapsto> ''tok''])"
    using c by (simp add: startup_def authEffect_def initial_gate_def)
  show ?thesis
    unfolding s using p
    by (simp add: checkExistingAuth_def setAndValidateToken_def validateToken_def
          forbidding_server_def user_info_request_def removeItem_def fresh_browser_def t)
qed

text \<open>
  C7, amended. When a request made through the API client to a private path (one that
  does not start with an entry of the list; any path in the earlier revision) is answered
  with 403, the response interceptor shows the permission-denied message and leaves
  \<open>localStorage\<close> as it is, without a reload. The request to \<open>/user/info\<close> that validates
  a token does not pass the interceptor: when it fails, with 403 or otherwise,
  \<open>checkExistingAuth\<close> and \<open>setAndValidateToken\<close> remove the token and show no alert.
\<close>

theorem response_interceptor_403:
  "(config_url e = Some u \<and> \<not> isPublicEndpoint u \<and> response_status e = Some 403 \<longrightarrow>
      response_interceptor e w =
        w\<lparr>alerts := alerts w @ [''You do not have permission to perform this action.'']\<rparr>
      \<and> localStorage (response_interceptor e w) = localStorage w
      \<and> reloads (response_interceptor e w) = reloads w)
   \<and> (response_status e = Some 403 \<longrightarrow>
      response_interceptor_earlier e w =
        w\<lparr>alerts := alerts w @ [''You do not have permission to perform this action.'']\<rparr>
      \<and> localStorage (response_interceptor_earlier e w) = localStorage w
      \<and> reloads (response_interceptor_earlier e w) = reloads w)
   \<and> (localStorage w ''authToken'' = Some tok \<and> trim tok \<noteq> [] \<and>
        srv (user_info_request tok) = Inl err \<longrightarrow>
        localStorage (snd (checkExistingAuth srv g w)) = (localStorage w)(''authToken'' := None)
        \<and> alerts (snd (checkExistingAuth srv g w)) = alerts w)
   \<and> (trim tok \<noteq> [] \<and> srv (user_info_request (trim tok)) = Inl err \<longrightarrow>
        localStorage (snd (setAndValidateToken srv tok w)) = (localStorage w)(''authToken'' := None)
        \<and> alerts (snd (setAndValidateToken srv tok w)) = alerts w)"
proof -
  have a: "(config_url e = Some u \<and> \<not> isPublicEndpoint u \<and> response_status e = Some 403 \<longrightarrow>
      response_interceptor e w =
        w\<lparr>alerts := alerts w @ [''You do not have permission to perform this action.'']\<rparr>
      \<and> localStorage (response_interceptor e w) = localStorage w
      \<and> reloads (response_interceptor e w) = reloads w)
   \<and> (response_status e = Some 403 \<longrightarrow>
      response_interceptor_earlier e w =
        w\<lparr>alerts := alerts w @ [''You do not have permission to perform this action.'']\<rparr>
      \<and> localStorage (response_interceptor_earlier e w) = localStorage w
      \<and> reloads (response_interceptor_earlier e w) = reloads w)"
    by (simp add: response_interceptor_def response_interceptor_earlier_def alert_def)
  have b: "localStorage w ''authToken'' = Some tok \<and> trim tok \<noteq> [] \<and>
        srv (user_info_request tok) = Inl err \<longrightarrow>
        localStorage (snd (checkExistingAuth srv g w)) = (localStorage w)(''authToken'' := None)
        \<and> alerts (snd (checkExistingAuth srv g w)) = alerts w"
    by (simp add: checkExistingAuth_rejected)
  have c: "trim tok \<noteq> [] \<and> srv (user_info_request (trim tok)) = Inl err \<longrightarrow>
        localStorage (snd (setAndValidateToken srv tok w)) = (localStorage w)(''authToken'' := None)
        \<and> alerts (snd (setAndValidateToken srv tok w)) = alerts w"
    by (simp add: setAndValidateToken_rejected)
  from a b c show ?thesis by blast
qed

text \<open>
  Instances: a 403 for \<open>/organization\<close> in the interceptors, and a 403 for the validation
  of the token \<open>tok\<close>, each with \<open>tok\<close> stored.
\<close>

theorem response_interceptor_403_witness:
  "\<not> isPublicEndpoint ''/organization'' \<and>
   response_interceptor
       \<lparr>message = ''Request failed with status code 403'', code = Some ''ERR_BAD_REQUEST'',
        response_status = Some 403, config_url = Some ''/organization''\<rparr>
       (fresh_browser [''authToken'' \<mapsto> ''tok''])
     = \<lparr>localStorage = [''authToken'' \<mapsto> ''tok''],
        alerts = [''You do not have permission to perform this action.''],
        reloads = 0, sent = [], setItems = []\<rparr> \<and>
   response_interceptor_earlier
       \<lparr>message = ''Request failed with status code 403'', code = Some ''ERR_BAD_REQUEST'',
        response_status = Some 403, config_url = Some ''/organization''\<rparr>
       (fresh_browser [''authToken'' \<mapsto> ''tok''])
     = \<lparr>localStorage = [''authToken'' \<mapsto> ''tok''],
        alerts = [''You do not have permission to perform this action.''],
        reloads = 0, sent = [], setItems = []\<rparr> \<and>
   localStorage (fresh_browser [''authToken'' \<mapsto> ''tok'']) ''authToken'' = Some ''tok'' \<and>
   trim ''tok'' \<noteq> [] \<and>
   forbidding_server (user_info_request ''tok'') =
     Inl \<lparr>message = ''Request failed with status code 403'', code = Some ''ERR_BAD_REQUEST'',
          response_status = Some 403, config_url = Some ''/user/info''\<rparr> \<and>
   localStorage (snd (checkExistingAuth forbidding_server initial_gate
                        (fresh_browser [''authToken'' \<mapsto> ''tok'']))) ''authToken'' = None \<and>
   alerts (snd (checkExistingAuth forbidding_server initial_gate
                  (fresh_browser [''authToken'' \<mapsto> ''tok'']))) = [] \<and>
   localStorage (snd (setAndValidateToken forbidding_server ''tok''
                        (fresh_browser [''authToken'' \<mapsto> ''tok'']))) ''authToken'' = None \<and>
   alerts (snd (setAndValidateToken forbidding_server ''tok''
                  (fresh_browser [''authToken'' \<mapsto> ''tok'']))) = []"
proof -
  have priv: "\<not> isPublicEndpoint ''/organization''"
    by (simp add: isPublicEndpoint_def PUBLIC_ENDPOINTS_def startsWith_def)
  have tok: "localStorage (fresh_browser [''authToken'' \<mapsto> ''tok'']) ''authToken'' = Some ''tok''"
    "alerts (fresh_browser [''authToken'' \<mapsto> ''tok'']) = []"
    by (simp_all add: fresh_browser_def)
  have t: "trim ''tok'' = ''tok''"
    by code_simp
  have r: "forbidding_server (user_info_request ''tok'') =
     Inl \<lparr>message = ''Request failed with status code 403'', code = Some ''ERR_BAD_REQUEST'',
          response_status = Some 403, config_url = Some ''/user/info''\<rparr>"
    by (simp add: forbidding_server_def user_info_request_def)
  have A: "response_interceptor
       \<lparr>message = ''Request failed with status code 403'', code = Some ''ERR_BAD_REQUEST'',
        response_status = Some 403, config_url = Some ''/organization''\<rparr>
       (fresh_browser [''authToken'' \<mapsto> ''tok''])
     = (fresh_browser [''authToken'' \<mapsto> ''tok''])
         \<lparr>alerts := alerts (fresh_browser [''authToken'' \<mapsto> ''tok'']) @
                      [''You do not have permission to perform this action.'']\<rparr>"
    and B: "response_interceptor_earlier
       \<lparr>message = ''Request failed with status code 403'', code = Some ''ERR_BAD_REQUEST'',
        response_status = Some 403, config_url = Some ''/organization''\<rparr>
       (fresh_browser [''authToken'' \<mapsto> ''tok''])
     = (fresh_browser [''authToken'' \<mapsto> ''tok''])
         \<lparr>alerts := alerts (fresh_browser [''authToken'' \<mapsto> ''tok'']) @
                      [''You do not have permission to perform this action.'']\<rparr>"
    and C: "localStorage (snd (checkExistingAuth forbidding_server initial_gate
                        (fresh_browser [''authToken'' \<mapsto> ''tok''])))
            = (localStorage (fresh_browser [''authToken'' \<mapsto> ''tok'']))(''authToken'' := None)"
    and D: "alerts (snd (checkExistingAuth forbidding_server initial_gate
                  (fresh_browser [''authToken'' \<mapsto> ''tok''])))
            = alerts (fresh_browser [''authToken'' \<mapsto> ''tok''])"
    and E: "localStorage (snd (setAndValidateToken forbidding_server ''tok''
                        (fresh_browser [''authToken'' \<mapsto> ''tok''])))
            = (localStorage (fresh_browser [''authToken'' \<mapsto> ''tok'']))(''authToken'' := None)"
    and F: "alerts (snd (setAndValidateToken forbidding_server ''tok''
                  (fresh_browser [''authToken'' \<mapsto> ''tok''])))
            = alerts (fresh_browser [''authToken'' \<mapsto> ''tok''])"
    using priv tok t r
      response_interceptor_403 [where
        e = "\<lparr>message = ''Request failed with status code 403'', code = Some ''ERR_BAD_REQUEST'',
          response_status = Some 403, config_url = Some ''/organization''\<rparr>"
        and u = "''/organization''" and w = "fresh_browser [''authToken'' \<mapsto> ''tok'']"
        and srv = forbidding_server and tok = "''tok''" and g = initial_gate
        and err = "\<lparr>message = ''Request failed with status code 403'', code = Some ''ERR_BAD_REQUEST'',
          response_status = Some 403, config_url = Some ''/user/info''\<rparr>"]
    by simp_all
  from A B C D E F priv tok t r show ?thesis
    by (simp add: fresh_browser_def)
qed

end
